theory Spec2Isabelle
  imports Main "HOL-Library.Word"
begin

unbundle bit_operations_syntax

section \<open>The STUN daemon \<open>stund.c\<close>: data model\<close>

text \<open>
  The development embeds \<open>src/stun/tools/stund.c\<close>: the listening socket
  (\<open>listen_socket\<close>), the transport wrappers (\<open>recv_err\<close>, \<open>recv_safe\<close>,
  \<open>send_safe\<close>), the per-datagram dispatcher (\<open>dgram_process\<close>) and the server loop
  (\<open>run\<close>); \<open>main\<close>, which reads the command line and calls \<open>run\<close>, is left out. The file
  is modelled as it is compiled on Linux, where \<open>MSG_ERRQUEUE\<close>, \<open>IP_RECVERR\<close>,
  \<open>IPV6_RECVERR\<close> and \<open>IPV6_V6ONLY\<close> are defined (without \<open>MSG_ERRQUEUE\<close> the function
  \<open>recv_err\<close> has no return statement at all).

  The kernel and the network are state that every system call takes and returns. What
  they do is not in the source: the model follows the manual pages of the calls and, for
  the error queue, the spec (a transmission fails while a stale asynchronous error is
  queued on the socket, and \<open>recvmsg\<close> with \<open>MSG_ERRQUEUE\<close> takes one entry off).

  \<open>size_t\<close> and \<open>ssize_t\<close> are 64-bit words. The conversion between them keeps the bits,
  so both are the same word type: \<open>-1\<close> is the word of all ones, \<open>(size_t)-1\<close>; \<open><\<close> is
  the unsigned comparison of C on \<open>size_t\<close>, \<open>\<le>s\<close> the signed one on \<open>ssize_t\<close>.
\<close>

type_synonym size_t = "64 word"
type_synonym ssize_t = "64 word"
type_synonym uint8_t = "8 word"
type_synonym uint16_t = "16 word"

subsection \<open>Sockets and the kernel\<close>

datatype family = AF_INET | AF_INET6 | AF_OTHER nat

datatype sock_type = SOCK_STREAM | SOCK_DGRAM | SOCK_RAW | SOCK_OTHER nat

datatype sockopt = IPV6_V6ONLY | IP_PKTINFO | IP_RECVERR | IPV6_RECVPKTINFO | IPV6_RECVERR

datatype errno_t = E_NONE | EAGAIN | EBADF | EMSGSIZE | ECONNREFUSED | ENOMEM | E_OTHER nat

datatype msg_flag = MSG_TRUNC | MSG_CTRUNC

text \<open>\<open>struct sockaddr_storage\<close>: family, port and address bits.\<close>

record sockaddr =
  sa_family :: family
  sa_port :: uint16_t
  sa_addr :: "128 word"

text \<open>
  What the kernel has queued for a socket's next \<open>recvmsg (fd, msg, 0)\<close>: a failure with an
  error number, or a datagram with its peer address, the local destination address of the
  packet-information control message (when delivered) and its payload.
\<close>

datatype rx_event =
    Rx_fail errno_t
  | Rx_dgram sockaddr "sockaddr option" "uint8_t list"

text \<open>
  What the network layer does with a transmission that reaches it: it fails, it takes the
  whole datagram, or it takes only the given number of bytes.
\<close>

datatype tx_outcome = Tx_fail errno_t | Tx_all | Tx_short nat

record socket =
  so_family :: family
  so_type :: sock_type
  so_proto :: int
  so_opts :: "sockopt list"
  so_bound :: "sockaddr option"
  so_backlog :: "int option"
  so_rxq :: "rx_event list"
  so_errq :: "errno_t list"

subsection \<open>STUN messages\<close>

text \<open>
  Modelled from the spec: the types of \<open>stun/stunagent.h\<close> and \<open>stun/stunmessage.h\<close>,
  which \<open>stund.c\<close> includes and which are not under src/. Of each enumeration the members
  that \<open>stund.c\<close> names are kept by name (validation status, class, method, error code,
  attribute type, compatibility, usage), all the others are one constructor with a number.
\<close>

datatype StunValidationStatus =
    STUN_VALIDATION_SUCCESS
  | STUN_VALIDATION_UNKNOWN_REQUEST_ATTRIBUTE
  | STUN_VALIDATION_OTHER nat

datatype StunClass = STUN_REQUEST | STUN_INDICATION | STUN_RESPONSE | STUN_ERROR

datatype StunMethod = STUN_BINDING | STUN_METHOD_OTHER nat

datatype StunError = STUN_ERROR_BAD_REQUEST | STUN_ERROR_UNKNOWN_ATTRIBUTE | STUN_ERROR_OTHER nat

datatype StunAttribute =
    STUN_ATTRIBUTE_MAPPED_ADDRESS
  | STUN_ATTRIBUTE_XOR_MAPPED_ADDRESS
  | STUN_ATTRIBUTE_ERROR_CODE
  | STUN_ATTRIBUTE_UNKNOWN_ATTRIBUTES
  | STUN_ATTRIBUTE_OTHER uint16_t

datatype attr_value =
    Addr_value "sockaddr option"
  | Error_value StunError
  | Unknown_value "uint16_t list"
  | Opaque_value "uint8_t list"

text \<open>
  Modelled from the spec: \<open>StunMessage\<close> (\<open>stun/stunmessage.h\<close>, not under src/), as far
  as the introspection and the builders of the codec show a message: class, method,
  whether the magic cookie is there, the 16 bytes of cookie and transaction id, the
  attributes, and (for a parsed request) the types of the attributes that the validation
  found unknown. \<open>StunAgent\<close> (\<open>stun/stunagent.h\<close>) holds what \<open>stun_agent_init\<close> is given.
\<close>

record StunMessage =
  msg_class :: StunClass
  msg_method :: StunMethod
  msg_cookie :: bool
  msg_id :: "128 word"
  msg_attrs :: "(StunAttribute \<times> attr_value) list"
  msg_unknown :: "uint16_t list"

datatype StunCompatibility = STUN_COMPATIBILITY_3489BIS | STUN_COMPATIBILITY_OTHER nat

datatype StunAgentUsageFlags = STUN_AGENT_USAGE_ADD_SERVER | STUN_AGENT_USAGE_OTHER nat

record StunAgent =
  agent_known_attributes :: "uint16_t list"
  agent_compatibility :: StunCompatibility
  agent_usage_flags :: StunAgentUsageFlags

subsection \<open>Message headers, events and the state of the world\<close>

text \<open>
  The buffer \<open>buf\<close> of \<open>dgram_process\<close> holds the bytes that \<open>recvmsg\<close> wrote, or the
  message that the codec built in it.
\<close>

datatype buffer = Raw "uint8_t list" | Built StunMessage

text \<open>
  \<open>struct msghdr\<close> with its one \<open>struct iovec\<close>: \<open>msg_name\<close> is \<open>None\<close> as long as
  nothing wrote the address (the C variable \<open>addr\<close> starts uninitialised),
  \<open>msg_control\<close> is the content of \<open>ctlbuf\<close>.
\<close>

record msghdr =
  msg_name :: "sockaddr option"
  msg_control :: "sockaddr option"
  msg_flags :: "msg_flag list"
  iov_base :: buffer
  iov_len :: size_t

text \<open>The calls that leave \<open>stund.c\<close> on the datagram path, in the order they are made.\<close>

datatype event =
    Sys_recvmsg int
  | Sys_recv_errqueue int
  | Sys_sendmsg int msghdr
  | Codec_validate buffer size_t
  | Codec_build_unknown_attributes_error
  | Codec_init_response
  | Codec_append_xor_addr StunAttribute "sockaddr option"
  | Codec_append_addr StunAttribute "sockaddr option"
  | Codec_init_error StunError
  | Codec_finish_message

text \<open>
  The state of the world around the process: the descriptor table, \<open>errno\<close>, what the
  kernel answers to the next \<open>socket\<close> (an error, or the number of the new descriptor),
  \<open>bind\<close> and \<open>listen\<close> (an error, if any), what the network does with the \<open>n\<close>-th
  transmission that reaches it, the datagrams that left (with the number of bytes taken),
  the lines written by \<open>perror\<close> (with the \<open>errno\<close> they describe), and the trace of
  calls on the datagram path.
\<close>

record os =
  fdtab :: "int \<Rightarrow> socket option"
  errno :: errno_t
  socket_ret :: "errno_t + nat"
  bind_ret :: "errno_t option"
  listen_ret :: "errno_t option"
  tx_net :: "nat \<Rightarrow> tx_outcome"
  tx_count :: nat
  wire :: "(msghdr \<times> nat) list"
  stderr :: "(string \<times> errno_t) list"
  trace :: "event list"

definition log_event :: "event \<Rightarrow> os \<Rightarrow> os" where
  "log_event e s = s\<lparr>trace := trace s @ [e]\<rparr>"

section \<open>System calls on the datagram path\<close>

text \<open>
  \<open>recvmsg (fd, msg, 0)\<close>. A descriptor that is not open gives \<open>EBADF\<close>. With nothing
  queued the call blocks and never returns (\<open>None\<close>): the socket is a blocking one. A
  datagram longer than the buffer is cut to the buffer and flagged \<open>MSG_TRUNC\<close>.
\<close>

definition sys_recvmsg :: "int \<Rightarrow> msghdr \<Rightarrow> os \<Rightarrow> (ssize_t \<times> msghdr \<times> os) option" where
  "sys_recvmsg fd msg s0 =
     (let s = log_event (Sys_recvmsg fd) s0 in
      case fdtab s fd of
        None \<Rightarrow> Some (- 1, msg, s\<lparr>errno := EBADF\<rparr>)
      | Some sk \<Rightarrow>
          (case so_rxq sk of
             [] \<Rightarrow> None
           | Rx_fail e # q \<Rightarrow>
               Some (- 1, msg, s\<lparr>fdtab := (fdtab s)(fd \<mapsto> sk\<lparr>so_rxq := q\<rparr>), errno := e\<rparr>)
           | Rx_dgram peer local data # q \<Rightarrow>
               (let n = min (length data) (unat (iov_len msg)) in
                Some (of_nat n,
                      msg\<lparr>msg_name := Some peer, msg_control := local,
                          msg_flags := (if unat (iov_len msg) < length data then [MSG_TRUNC] else []),
                          iov_base := Raw (take n data)\<rparr>,
                      s\<lparr>fdtab := (fdtab s)(fd \<mapsto> sk\<lparr>so_rxq := q\<rparr>)\<rparr>))))"

text \<open>
  \<open>recvmsg (fd, &hdr, MSG_ERRQUEUE)\<close> with an empty header: takes one entry off the
  socket's error queue and returns 0, or fails with \<open>EAGAIN\<close> when the queue is empty. It
  never blocks.
\<close>

definition sys_recv_errqueue :: "int \<Rightarrow> os \<Rightarrow> ssize_t \<times> os" where
  "sys_recv_errqueue fd s0 =
     (let s = log_event (Sys_recv_errqueue fd) s0 in
      case fdtab s fd of
        None \<Rightarrow> (- 1, s\<lparr>errno := EBADF\<rparr>)
      | Some sk \<Rightarrow>
          (case so_errq sk of
             [] \<Rightarrow> (- 1, s\<lparr>errno := EAGAIN\<rparr>)
           | e # q \<Rightarrow> (0, s\<lparr>fdtab := (fdtab s)(fd \<mapsto> sk\<lparr>so_errq := q\<rparr>)\<rparr>)))"

text \<open>
  \<open>sendmsg (fd, msg, 0)\<close>. While an asynchronous error is queued on the socket the call
  fails with that error and nothing reaches the network. Otherwise the network decides.
\<close>

definition sys_sendmsg :: "int \<Rightarrow> msghdr \<Rightarrow> os \<Rightarrow> ssize_t \<times> os" where
  "sys_sendmsg fd msg s0 =
     (let s = log_event (Sys_sendmsg fd msg) s0 in
      case fdtab s fd of
        None \<Rightarrow> (- 1, s\<lparr>errno := EBADF\<rparr>)
      | Some sk \<Rightarrow>
          (case so_errq sk of
             e # q \<Rightarrow> (- 1, s\<lparr>errno := e\<rparr>)
           | [] \<Rightarrow>
               (case tx_net s (tx_count s) of
                  Tx_fail e \<Rightarrow> (- 1, s\<lparr>errno := e, tx_count := Suc (tx_count s)\<rparr>)
                | Tx_all \<Rightarrow>
                    (iov_len msg,
                     s\<lparr>tx_count := Suc (tx_count s),
                       wire := wire s @ [(msg, unat (iov_len msg))]\<rparr>)
                | Tx_short n \<Rightarrow>
                    (of_nat (min n (unat (iov_len msg))),
                     s\<lparr>tx_count := Suc (tx_count s),
                       wire := wire s @ [(msg, min n (unat (iov_len msg)))]\<rparr>))))"

section \<open>The transport wrappers\<close>

text \<open>\<open>recv_err\<close> (lines 152-159): 1 when an entry was taken off the error queue, else 0.\<close>

definition recv_err :: "int \<Rightarrow> os \<Rightarrow> int \<times> os" where
  "recv_err fd s =
     (let (r, s') = sys_recv_errqueue fd s in ((if 0 \<le>s r then 1 else 0), s'))"

text \<open>
  \<open>recv_safe\<close> (lines 163-176). The result is \<open>None\<close> when \<open>recvmsg\<close> never returns.
\<close>

definition recv_safe :: "int \<Rightarrow> msghdr \<Rightarrow> os \<Rightarrow> (ssize_t \<times> msghdr \<times> os) option" where
  "recv_safe fd msg s =
     (case sys_recvmsg fd msg s of
        None \<Rightarrow> None
      | Some (len, msg', s') \<Rightarrow>
          if len = - 1 then Some (len, msg', snd (recv_err fd s'))
          else if MSG_TRUNC \<in> set (msg_flags msg') then Some (- 1, msg', s'\<lparr>errno := EMSGSIZE\<rparr>)
          else Some (len, msg', s'))"

text \<open>
  \<open>send_safe\<close> (lines 180-189): the \<open>do ... while\<close> loop goes round again while
  \<open>sendmsg\<close> returned \<open>-1\<close> and \<open>recv_err\<close> returned 0. Nothing bounds the number of
  rounds, so the function is partial: \<open>None\<close> is a loop that never ends.
\<close>

partial_function (option) send_safe :: "int \<Rightarrow> msghdr \<Rightarrow> os \<Rightarrow> (ssize_t \<times> os) option" where
  "send_safe fd msg s =
     (case sys_sendmsg fd msg s of (len, s1) \<Rightarrow>
        if len = - 1 then
          (case recv_err fd s1 of (r, s2) \<Rightarrow>
             if r = 0 then send_safe fd msg s2 else Some (len, s2))
        else Some (len, s1))"

section \<open>The codec and the agent\<close>

text \<open>
  \<open>stund.c\<close> calls the STUN codec of \<open>stun/stunagent.h\<close> and \<open>stun/stunmessage.h\<close>, which
  is not part of the source given here. The codec is a parameter of the model: the size of
  the buffer and one field for each function that \<open>dgram_process\<close> calls, named as in C.
  The functions that build a message get the agent, \<open>sizeof (buf)\<close> and the request, and
  give the message that is then in \<open>buf\<close>; the values they return in C are not looked at
  by \<open>stund.c\<close>. The arguments \<open>NULL, 0\<close> of the validation and of the finishing are
  constant and left out.
\<close>

record stun_codec =
  STUN_MAX_MESSAGE_SIZE :: nat
  stun_agent_validate :: "StunAgent \<Rightarrow> buffer \<Rightarrow> size_t \<Rightarrow> StunValidationStatus \<times> StunMessage"
  stun_agent_build_unknown_attributes_error :: "StunAgent \<Rightarrow> nat \<Rightarrow> StunMessage \<Rightarrow> StunMessage"
  stun_message_get_class :: "StunMessage \<Rightarrow> StunClass"
  stun_message_get_method :: "StunMessage \<Rightarrow> StunMethod"
  stun_agent_init_response :: "StunAgent \<Rightarrow> nat \<Rightarrow> StunMessage \<Rightarrow> StunMessage"
  stun_has_cookie :: "StunMessage \<Rightarrow> bool"
  stun_message_append_xor_addr :: "StunMessage \<Rightarrow> StunAttribute \<Rightarrow> sockaddr option \<Rightarrow> StunMessage"
  stun_message_append_addr :: "StunMessage \<Rightarrow> StunAttribute \<Rightarrow> sockaddr option \<Rightarrow> StunMessage"
  stun_agent_init_error :: "StunAgent \<Rightarrow> nat \<Rightarrow> StunMessage \<Rightarrow> StunError \<Rightarrow> StunMessage"
  stun_agent_finish_message :: "StunAgent \<Rightarrow> StunMessage \<Rightarrow> size_t"

section \<open>The dispatcher\<close>

text \<open>How control leaves lines 216-250 of \<open>dgram_process\<close>: by a \<open>return\<close>, or at \<open>send_buf\<close>.\<close>

datatype control = Return int | Send_buf

text \<open>
  Lines 216-250 of \<open>dgram_process\<close>: validation, the unknown-attributes branch with its
  \<open>goto send_buf\<close>, the drop of everything that is not a valid request, the switch on the
  method, and the assignment of the finished length to \<open>iov.iov_len\<close>. The header \<open>mh\<close>
  holds \<open>buf\<close> and \<open>iov\<close>; \<open>len\<close> is the result of \<open>recv_safe\<close>.
\<close>

definition dgram_respond ::
    "stun_codec \<Rightarrow> StunAgent \<Rightarrow> size_t \<Rightarrow> msghdr \<Rightarrow> os \<Rightarrow> control \<times> msghdr \<times> os" where
  "dgram_respond cdc agent len mh s0 =
     (let (validation, request) = stun_agent_validate cdc agent (iov_base mh) len;
          s = log_event (Codec_validate (iov_base mh) len) s0;
          size_buf = STUN_MAX_MESSAGE_SIZE cdc in
      if validation = STUN_VALIDATION_UNKNOWN_REQUEST_ATTRIBUTE then
        (Send_buf,
         mh\<lparr>iov_base := Built (stun_agent_build_unknown_attributes_error cdc agent size_buf request)\<rparr>,
         log_event Codec_build_unknown_attributes_error s)
      else if validation \<noteq> STUN_VALIDATION_SUCCESS
              \<or> stun_message_get_class cdc request \<noteq> STUN_REQUEST then
        (Return (- 1), mh, s)
      else
        (let (response, s') =
               (case stun_message_get_method cdc request of
                  STUN_BINDING \<Rightarrow>
                    (let r = stun_agent_init_response cdc agent size_buf request;
                         s1 = log_event Codec_init_response s in
                     if stun_has_cookie cdc request then
                       (stun_message_append_xor_addr cdc r STUN_ATTRIBUTE_XOR_MAPPED_ADDRESS
                          (msg_name mh),
                        log_event (Codec_append_xor_addr STUN_ATTRIBUTE_XOR_MAPPED_ADDRESS
                                     (msg_name mh)) s1)
                     else
                       (stun_message_append_addr cdc r STUN_ATTRIBUTE_MAPPED_ADDRESS (msg_name mh),
                        log_event (Codec_append_addr STUN_ATTRIBUTE_MAPPED_ADDRESS (msg_name mh)) s1))
                | STUN_METHOD_OTHER _ \<Rightarrow>
                    (stun_agent_init_error cdc agent size_buf request STUN_ERROR_BAD_REQUEST,
                     log_event (Codec_init_error STUN_ERROR_BAD_REQUEST) s))
         in (Send_buf,
             mh\<lparr>iov_base := Built response,
                iov_len := stun_agent_finish_message cdc agent response\<rparr>,
             log_event Codec_finish_message s')))"

text \<open>The header that \<open>dgram_process\<close> sets up (lines 194-210): nothing received yet.\<close>

definition dgram_msghdr :: "stun_codec \<Rightarrow> msghdr" where
  "dgram_msghdr cdc =
     \<lparr>msg_name = None, msg_control = None, msg_flags = [], iov_base = Raw [],
      iov_len = of_nat (STUN_MAX_MESSAGE_SIZE cdc)\<rparr>"

text \<open>
  \<open>dgram_process\<close> up to the label \<open>send_buf\<close> (lines 192-250): the call of \<open>recv_safe\<close>,
  whose result goes into the \<open>size_t\<close> variable \<open>len\<close>, the \<open>return\<close> when that is
  \<open>(size_t)-1\<close>, and then lines 216-250. \<open>None\<close>: \<open>recvmsg\<close> never returned.
\<close>

definition dgram_prepare ::
    "stun_codec \<Rightarrow> int \<Rightarrow> StunAgent \<Rightarrow> os \<Rightarrow> (control \<times> msghdr \<times> os) option" where
  "dgram_prepare cdc sock agent s =
     (case recv_safe sock (dgram_msghdr cdc) s of
        None \<Rightarrow> None
      | Some (len, mh, s1) \<Rightarrow>
          if len = - 1 then Some (Return (- 1), mh, s1)
          else Some (dgram_respond cdc agent len mh s1))"

text \<open>
  \<open>dgram_process\<close> (lines 192-255): after the label \<open>send_buf\<close> the result of \<open>send_safe\<close>
  goes into the \<open>size_t\<close> variable \<open>len\<close>, and the comparison with \<open>iov.iov_len\<close> is the
  unsigned one. \<open>None\<close>: \<open>recvmsg\<close> never returned, or the loop of \<open>send_safe\<close> never ended.
\<close>

definition dgram_process :: "stun_codec \<Rightarrow> int \<Rightarrow> StunAgent \<Rightarrow> os \<Rightarrow> (int \<times> os) option" where
  "dgram_process cdc sock agent s =
     (case dgram_prepare cdc sock agent s of
        None \<Rightarrow> None
      | Some (Return r, mh, s1) \<Rightarrow> Some (r, s1)
      | Some (Send_buf, mh, s1) \<Rightarrow>
          (case send_safe sock mh s1 of
             None \<Rightarrow> None
           | Some (len, s2) \<Rightarrow> Some ((if len < iov_len mh then - 1 else 0), s2)))"

section \<open>The listening socket\<close>

text \<open>
  The system calls of \<open>listen_socket\<close>. \<open>socket\<close> answers what the kernel has decided: an
  error, or a new descriptor with a socket that has no option set, is not bound and does
  not listen. \<open>setsockopt\<close> sets the option on an open descriptor. \<open>bind\<close> and \<open>listen\<close>
  fail when the kernel says so. \<open>close\<close> frees the descriptor.
\<close>

definition sys_socket :: "family \<Rightarrow> sock_type \<Rightarrow> int \<Rightarrow> os \<Rightarrow> int \<times> os" where
  "sys_socket fam type proto s =
     (case socket_ret s of
        Inl e \<Rightarrow> (- 1, s\<lparr>errno := e\<rparr>)
      | Inr n \<Rightarrow>
          (int n,
           s\<lparr>fdtab := (fdtab s)(int n \<mapsto>
                \<lparr>so_family = fam, so_type = type, so_proto = proto, so_opts = [],
                 so_bound = None, so_backlog = None, so_rxq = [], so_errq = []\<rparr>)\<rparr>))"

definition sys_setsockopt :: "int \<Rightarrow> sockopt \<Rightarrow> os \<Rightarrow> int \<times> os" where
  "sys_setsockopt fd opt s =
     (case fdtab s fd of
        None \<Rightarrow> (- 1, s\<lparr>errno := EBADF\<rparr>)
      | Some sk \<Rightarrow> (0, s\<lparr>fdtab := (fdtab s)(fd \<mapsto> sk\<lparr>so_opts := so_opts sk @ [opt]\<rparr>)\<rparr>))"

definition sys_bind :: "int \<Rightarrow> sockaddr \<Rightarrow> os \<Rightarrow> int \<times> os" where
  "sys_bind fd addr s =
     (case fdtab s fd of
        None \<Rightarrow> (- 1, s\<lparr>errno := EBADF\<rparr>)
      | Some sk \<Rightarrow>
          (case bind_ret s of
             Some e \<Rightarrow> (- 1, s\<lparr>errno := e\<rparr>)
           | None \<Rightarrow> (0, s\<lparr>fdtab := (fdtab s)(fd \<mapsto> sk\<lparr>so_bound := Some addr\<rparr>)\<rparr>)))"

definition sys_listen :: "int \<Rightarrow> int \<Rightarrow> os \<Rightarrow> int \<times> os" where
  "sys_listen fd backlog s =
     (case fdtab s fd of
        None \<Rightarrow> (- 1, s\<lparr>errno := EBADF\<rparr>)
      | Some sk \<Rightarrow>
          (case listen_ret s of
             Some e \<Rightarrow> (- 1, s\<lparr>errno := e\<rparr>)
           | None \<Rightarrow> (0, s\<lparr>fdtab := (fdtab s)(fd \<mapsto> sk\<lparr>so_backlog := Some backlog\<rparr>)\<rparr>)))"

definition sys_close :: "int \<Rightarrow> os \<Rightarrow> os" where
  "sys_close fd s =
     (case fdtab s fd of
        None \<Rightarrow> s\<lparr>errno := EBADF\<rparr>
      | Some sk \<Rightarrow> s\<lparr>fdtab := (fdtab s)(fd := None)\<rparr>)"

definition perror :: "string \<Rightarrow> os \<Rightarrow> os" where
  "perror str s = s\<lparr>stderr := stderr s @ [(str, errno s)]\<rparr>"

definition INT_MAX :: int where
  "INT_MAX = 2147483647"

text \<open>The label \<open>error\<close> of \<open>listen_socket\<close> (lines 145-147).\<close>

definition listen_socket_error :: "int \<Rightarrow> os \<Rightarrow> int \<times> os" where
  "listen_socket_error fd s = (- 1, sys_close fd s)"

text \<open>
  \<open>listen_socket\<close> (lines 75-148). The results of \<open>setsockopt\<close> are not looked at. A
  family other than \<open>AF_INET\<close> and \<open>AF_INET6\<close> leaves the port of the zeroed address alone
  and sets no option.
\<close>

definition listen_socket :: "family \<Rightarrow> sock_type \<Rightarrow> int \<Rightarrow> uint16_t \<Rightarrow> os \<Rightarrow> int \<times> os" where
  "listen_socket fam type proto port s =
     (let (fd, s1) = sys_socket fam type proto s in
      if fd = - 1 then (- 1, perror ''Error opening IP port'' s1)
      else if fd < 3 then listen_socket_error fd s1
      else
        (let addr0 = \<lparr>sa_family = fam, sa_port = 0, sa_addr = 0\<rparr>;
             (addr, s2) =
               (case fam of
                  AF_INET \<Rightarrow> (addr0\<lparr>sa_port := port\<rparr>, s1)
                | AF_INET6 \<Rightarrow> (addr0\<lparr>sa_port := port\<rparr>, snd (sys_setsockopt fd IPV6_V6ONLY s1))
                | AF_OTHER _ \<Rightarrow> (addr0, s1));
             (b, s3) = sys_bind fd addr s2 in
         if b \<noteq> 0 then listen_socket_error fd (perror ''Error opening IP port'' s3)
         else if type = SOCK_DGRAM \<or> type = SOCK_RAW then
           (fd,
            (case fam of
               AF_INET \<Rightarrow>
                 snd (sys_setsockopt fd IP_RECVERR (snd (sys_setsockopt fd IP_PKTINFO s3)))
             | AF_INET6 \<Rightarrow>
                 snd (sys_setsockopt fd IPV6_RECVERR (snd (sys_setsockopt fd IPV6_RECVPKTINFO s3)))
             | AF_OTHER _ \<Rightarrow> s3))
         else
           (let (l, s4) = sys_listen fd INT_MAX s3 in
            if l \<noteq> 0 then listen_socket_error fd (perror ''Error opening IP port'' s4)
            else (fd, s4))))"

section \<open>The server loop\<close>

text \<open>\<open>known_attributes\<close> (lines 68-70) and the agent that \<open>run\<close> initialises (lines 266-267).\<close>

definition known_attributes :: "uint16_t list" where
  "known_attributes = [0]"

definition stun_agent_init :: "uint16_t list \<Rightarrow> StunCompatibility \<Rightarrow> StunAgentUsageFlags \<Rightarrow> StunAgent" where
  "stun_agent_init known compatibility usage_flags =
     \<lparr>agent_known_attributes = known, agent_compatibility = compatibility,
      agent_usage_flags = usage_flags\<rparr>"

text \<open>
  The loop \<open>for (;;) dgram_process (sock, &agent)\<close> of \<open>run\<close> (lines 269-270) never ends by
  itself, so the model runs a given number of rounds of it. The result of each call is
  thrown away. \<open>None\<close>: one of the calls never returned.
\<close>

fun dgram_loop :: "nat \<Rightarrow> stun_codec \<Rightarrow> int \<Rightarrow> StunAgent \<Rightarrow> os \<Rightarrow> os option" where
  "dgram_loop 0 cdc sock agent s = Some s"
| "dgram_loop (Suc n) cdc sock agent s =
     (case dgram_process cdc sock agent s of
        None \<Rightarrow> None
      | Some (r, s') \<Rightarrow> dgram_loop n cdc sock agent s')"

text \<open>
  \<open>run\<close> (lines 258-271), with the port already in network byte order (the argument of
  \<open>listen_socket\<close>). It returns \<open>-1\<close> without a socket (\<open>Inl\<close>); otherwise it loops, and
  \<open>Inr\<close> is the state after the given number of rounds.
\<close>

definition run :: "nat \<Rightarrow> stun_codec \<Rightarrow> family \<Rightarrow> int \<Rightarrow> uint16_t \<Rightarrow> os \<Rightarrow> (int \<times> os + os) option" where
  "run rounds cdc fam protocol port s =
     (let (sock, s1) = listen_socket fam SOCK_DGRAM protocol port s in
      if sock = - 1 then Some (Inl (- 1, s1))
      else
        (let agent = stun_agent_init known_attributes STUN_COMPATIBILITY_3489BIS
                       STUN_AGENT_USAGE_ADD_SERVER in
         map_option Inr (dgram_loop rounds cdc sock agent s1)))"

section \<open>The codec as the spec describes it\<close>

text \<open>
  Modelled from the spec: the introspection functions \<open>stun_message_get_class\<close>,
  \<open>stun_message_get_method\<close> and \<open>stun_has_cookie\<close> of the codec (declared in
  \<open>stun/stunmessage.h\<close>, not under src/): \<open>getClass()\<close>, \<open>getMethod()\<close>,
  \<open>hasCookieMarker()\<close> read the parsed message.
\<close>

definition spec_get_class :: "StunMessage \<Rightarrow> StunClass" where
  "spec_get_class m = msg_class m"

definition spec_get_method :: "StunMessage \<Rightarrow> StunMethod" where
  "spec_get_method m = msg_method m"

definition spec_has_cookie :: "StunMessage \<Rightarrow> bool" where
  "spec_has_cookie m = msg_cookie m"

text \<open>
  Modelled from the spec: \<open>stun_agent_init_response\<close> and \<open>stun_agent_init_error\<close> of the
  agent (\<open>stun/stunagent.h\<close>, not under src/): \<open>initSuccessResponse\<close> starts a success
  response to the parsed request, \<open>initErrorResponse\<close> an error response that carries the
  given error code. Both answer the request's transaction.
\<close>

definition spec_init_response :: "StunAgent \<Rightarrow> StunMessage \<Rightarrow> StunMessage" where
  "spec_init_response agent request =
     \<lparr>msg_class = STUN_RESPONSE, msg_method = msg_method request,
      msg_cookie = msg_cookie request, msg_id = msg_id request,
      msg_attrs = [], msg_unknown = []\<rparr>"

definition spec_init_error :: "StunAgent \<Rightarrow> StunMessage \<Rightarrow> StunError \<Rightarrow> StunMessage" where
  "spec_init_error agent request err =
     \<lparr>msg_class = STUN_ERROR, msg_method = msg_method request,
      msg_cookie = msg_cookie request, msg_id = msg_id request,
      msg_attrs = [(STUN_ATTRIBUTE_ERROR_CODE, Error_value err)], msg_unknown = []\<rparr>"

text \<open>
  Modelled from the spec: \<open>stun_agent_build_unknown_attributes_error\<close> of the agent
  (\<open>stun/stunagent.h\<close>, not under src/): \<open>buildUnknownAttributesErrorResponse\<close> builds an
  "unknown attributes" error response that names the offending attributes of the request.
\<close>

definition spec_build_unknown_attributes_error :: "StunAgent \<Rightarrow> StunMessage \<Rightarrow> StunMessage" where
  "spec_build_unknown_attributes_error agent request =
     (let m = spec_init_error agent request STUN_ERROR_UNKNOWN_ATTRIBUTE in
      m\<lparr>msg_attrs := msg_attrs m @
           [(STUN_ATTRIBUTE_UNKNOWN_ATTRIBUTES, Unknown_value (msg_unknown request))]\<rparr>)"

text \<open>
  Modelled from the spec: \<open>stun_message_append_addr\<close> and \<open>stun_message_append_xor_addr\<close>
  of the codec (\<open>stun/stunmessage.h\<close>, not under src/): \<open>appendAddressAttribute\<close> appends
  the address as it is, \<open>appendXorAddressAttribute\<close> appends it obfuscated by exclusive-or
  with transaction-derived bytes, here the 16 bytes of cookie and transaction id of the
  message for the address and their first two bytes for the port.
\<close>

definition stun_xor_address :: "128 word \<Rightarrow> sockaddr \<Rightarrow> sockaddr" where
  "stun_xor_address k a =
     a\<lparr>sa_port := sa_port a XOR ucast (drop_bit 112 k), sa_addr := sa_addr a XOR k\<rparr>"

definition spec_append_addr ::
    "StunMessage \<Rightarrow> StunAttribute \<Rightarrow> sockaddr option \<Rightarrow> StunMessage" where
  "spec_append_addr m t a = m\<lparr>msg_attrs := msg_attrs m @ [(t, Addr_value a)]\<rparr>"

definition spec_append_xor_addr ::
    "StunMessage \<Rightarrow> StunAttribute \<Rightarrow> sockaddr option \<Rightarrow> StunMessage" where
  "spec_append_xor_addr m t a =
     m\<lparr>msg_attrs := msg_attrs m @ [(t, Addr_value (map_option (stun_xor_address (msg_id m)) a))]\<rparr>"

text \<open>
  Modelled from the spec: the codec whose introspection and building functions are the
  ones above. The size of the buffer, the validation and the finishing depend on the wire
  format, which the spec leaves to the codec, and stay parameters.
\<close>

definition spec_codec ::
    "nat \<Rightarrow> (StunAgent \<Rightarrow> buffer \<Rightarrow> size_t \<Rightarrow> StunValidationStatus \<times> StunMessage)
         \<Rightarrow> (StunAgent \<Rightarrow> StunMessage \<Rightarrow> size_t) \<Rightarrow> stun_codec" where
  "spec_codec size_buf validate finish =
     \<lparr>STUN_MAX_MESSAGE_SIZE = size_buf,
      stun_agent_validate = validate,
      stun_agent_build_unknown_attributes_error =
        (\<lambda>agent n request. spec_build_unknown_attributes_error agent request),
      stun_message_get_class = spec_get_class,
      stun_message_get_method = spec_get_method,
      stun_agent_init_response = (\<lambda>agent n request. spec_init_response agent request),
      stun_has_cookie = spec_has_cookie,
      stun_message_append_xor_addr = spec_append_xor_addr,
      stun_message_append_addr = spec_append_addr,
      stun_agent_init_error = (\<lambda>agent n request err. spec_init_error agent request err),
      stun_agent_finish_message = finish\<rparr>"

section \<open>Auxiliary definitions\<close>

text \<open>
  The header and the state of the world right after \<open>recvmsg\<close> delivered a datagram that
  fits the buffer: peer address and control data are filled in, the buffer holds the
  payload, the datagram is off the socket's queue and the call is in the trace.
\<close>

definition received_msghdr :: "stun_codec \<Rightarrow> sockaddr \<Rightarrow> sockaddr option \<Rightarrow> uint8_t list \<Rightarrow> msghdr" where
  "received_msghdr cdc peer local data =
     (dgram_msghdr cdc)\<lparr>msg_name := Some peer, msg_control := local, msg_flags := [],
                        iov_base := Raw data\<rparr>"

definition received_os :: "int \<Rightarrow> socket \<Rightarrow> rx_event list \<Rightarrow> os \<Rightarrow> os" where
  "received_os sock sk q s =
     (log_event (Sys_recvmsg sock) s)\<lparr>fdtab := (fdtab s)(sock \<mapsto> sk\<lparr>so_rxq := q\<rparr>)\<rparr>"

text \<open>
  A socket on which \<open>send_safe\<close> cannot make progress: its error queue is empty and the
  network refuses every transmission.
\<close>

definition spins :: "int \<Rightarrow> os \<Rightarrow> bool" where
  "spins fd s \<longleftrightarrow>
     (\<forall>n. \<exists>e. tx_net s n = Tx_fail e) \<and> (\<exists>sk. fdtab s fd = Some sk \<and> so_errq sk = [])"

text \<open>What can be seen of a call that returned a value with the state of the world.\<close>

definition returned :: "('a \<times> os) option \<Rightarrow> 'a option" where
  "returned r = map_option fst r"

definition sent_lengths :: "('a \<times> os) option \<Rightarrow> nat list" where
  "sent_lengths r = (case r of None \<Rightarrow> [] | Some (x, s) \<Rightarrow> map snd (wire s))"

definition sent_to :: "('a \<times> os) option \<Rightarrow> sockaddr option list" where
  "sent_to r = (case r of None \<Rightarrow> [] | Some (x, s) \<Rightarrow> map (msg_name \<circ> fst) (wire s))"

definition calls :: "('a \<times> os) option \<Rightarrow> event list" where
  "calls r = (case r of None \<Rightarrow> [] | Some (x, s) \<Rightarrow> trace s)"

definition errq_left :: "int \<Rightarrow> ('a \<times> os) option \<Rightarrow> errno_t list" where
  "errq_left fd r =
     (case r of
        None \<Rightarrow> []
      | Some (x, s) \<Rightarrow> (case fdtab s fd of None \<Rightarrow> [] | Some sk \<Rightarrow> so_errq sk))"

text \<open>What \<open>recvmsg\<close> and \<open>recv_safe\<close> report: the value returned and \<open>errno\<close>.\<close>

definition reported :: "(ssize_t \<times> msghdr \<times> os) option \<Rightarrow> (ssize_t \<times> errno_t) option" where
  "reported r = (case r of None \<Rightarrow> None | Some (len, mh, s) \<Rightarrow> Some (len, errno s))"

text \<open>What has left on the wire after some rounds of the loop: destination and length.\<close>

definition loop_sent :: "os option \<Rightarrow> (sockaddr option \<times> nat) list" where
  "loop_sent r =
     (case r of None \<Rightarrow> [] | Some s \<Rightarrow> map (\<lambda>(mh, n). (msg_name mh, n)) (wire s))"

subsection \<open>A concrete codec, socket and network\<close>

text \<open>
  Concrete inputs for the theorems below: a peer; a codec, built on the one of the spec,
  that reads the verdict on a datagram off its first byte (0: Binding request with the
  cookie, 1: Binding request without it, 2: request of another method, 3: Binding request
  with an unknown attribute, 4: indication, anything else: not valid) and finishes a
  message to 20 bytes plus 12 for each attribute; the agent of \<open>run\<close>; an open UDP socket at descriptor 3 with given
  receive and error queues; and three networks (one takes every datagram whole, one
  refuses all, one takes 10 bytes of each).
\<close>

definition demo_peer :: sockaddr where
  "demo_peer = \<lparr>sa_family = AF_INET, sa_port = 0xC001, sa_addr = 0xC6336411\<rparr>"

definition demo_request :: "StunClass \<Rightarrow> StunMethod \<Rightarrow> bool \<Rightarrow> StunMessage" where
  "demo_request c m k =
     \<lparr>msg_class = c, msg_method = m, msg_cookie = k, msg_id = 0x2112A442000000000000000000000007,
      msg_attrs = [], msg_unknown = [0x7F]\<rparr>"

definition demo_validate :: "StunAgent \<Rightarrow> buffer \<Rightarrow> size_t \<Rightarrow> StunValidationStatus \<times> StunMessage" where
  "demo_validate agent buf len =
     (case buf of
        Raw (b # bs) \<Rightarrow>
          (if b = 0 then (STUN_VALIDATION_SUCCESS, demo_request STUN_REQUEST STUN_BINDING True)
           else if b = 1 then (STUN_VALIDATION_SUCCESS, demo_request STUN_REQUEST STUN_BINDING False)
           else if b = 2 then (STUN_VALIDATION_SUCCESS, demo_request STUN_REQUEST (STUN_METHOD_OTHER 3) True)
           else if b = 3 then (STUN_VALIDATION_UNKNOWN_REQUEST_ATTRIBUTE, demo_request STUN_REQUEST STUN_BINDING True)
           else if b = 4 then (STUN_VALIDATION_SUCCESS, demo_request STUN_INDICATION STUN_BINDING True)
           else (STUN_VALIDATION_OTHER 1, demo_request STUN_REQUEST STUN_BINDING True))
      | _ \<Rightarrow> (STUN_VALIDATION_OTHER 1, demo_request STUN_REQUEST STUN_BINDING True))"

definition demo_finish :: "StunAgent \<Rightarrow> StunMessage \<Rightarrow> size_t" where
  "demo_finish agent m = of_nat (20 + 12 * length (msg_attrs m))"

definition demo_codec :: stun_codec where
  "demo_codec = spec_codec 1280 demo_validate demo_finish"

definition demo_agent :: StunAgent where
  "demo_agent = stun_agent_init known_attributes STUN_COMPATIBILITY_3489BIS STUN_AGENT_USAGE_ADD_SERVER"

definition demo_socket :: "rx_event list \<Rightarrow> errno_t list \<Rightarrow> socket" where
  "demo_socket rxq errq =
     \<lparr>so_family = AF_INET, so_type = SOCK_DGRAM, so_proto = 17, so_opts = [IP_PKTINFO, IP_RECVERR],
      so_bound = Some \<lparr>sa_family = AF_INET, sa_port = 0x960D, sa_addr = 0\<rparr>, so_backlog = None,
      so_rxq = rxq, so_errq = errq\<rparr>"

definition demo_os :: "rx_event list \<Rightarrow> errno_t list \<Rightarrow> (nat \<Rightarrow> tx_outcome) \<Rightarrow> os" where
  "demo_os rxq errq net =
     \<lparr>fdtab = (\<lambda>fd. if fd = 3 then Some (demo_socket rxq errq) else None), errno = E_NONE,
      socket_ret = Inr 4, bind_ret = None, listen_ret = None,
      tx_net = net, tx_count = 0, wire = [], stderr = [], trace = []\<rparr>"

definition demo_msg :: msghdr where
  "demo_msg = \<lparr>msg_name = Some demo_peer, msg_control = None, msg_flags = [],
      iov_base = Built (spec_init_error demo_agent (demo_request STUN_REQUEST STUN_BINDING True)
                        STUN_ERROR_BAD_REQUEST),
      iov_len = 32\<rparr>"

definition net_ok :: "nat \<Rightarrow> tx_outcome" where
  "net_ok n = Tx_all"

definition net_down :: "nat \<Rightarrow> tx_outcome" where
  "net_down n = Tx_fail (E_OTHER 101)"

definition net_short :: "nat \<Rightarrow> tx_outcome" where
  "net_short n = Tx_short 10"

definition demo_dgram :: "uint8_t \<Rightarrow> rx_event" where
  "demo_dgram b = Rx_dgram demo_peer None [b, 1, 0, 0]"

text \<open>The world before \<open>listen_socket\<close>: no descriptor open, \<open>socket\<close> will answer \<open>r\<close>.\<close>

definition boot_os :: "errno_t + nat \<Rightarrow> os" where
  "boot_os r =
     \<lparr>fdtab = (\<lambda>fd. None), errno = E_NONE, socket_ret = r, bind_ret = None, listen_ret = None,
      tx_net = net_ok, tx_count = 0, wire = [], stderr = [], trace = []\<rparr>"

section \<open>Facts about words and about the concrete inputs\<close>

lemma unat_minus_1_size_t: "unat (- 1 :: size_t) = 18446744073709551615"
  by (simp add: unsigned_minus_1_eq_mask mask_eq_exp_minus_1)

lemma of_nat_neq_minus_1: "n < 2 ^ 63 \<Longrightarrow> (of_nat n :: size_t) \<noteq> - 1"
proof
  assume n: "n < 2 ^ 63" and eq: "(of_nat n :: size_t) = - 1"
  from eq have "unat (of_nat n :: size_t) = unat (- 1 :: size_t)" by simp
  with n show False by (simp add: unat_of_nat unat_minus_1_size_t)
qed

lemma unat_of_nat_size_t: "n < 2 ^ 63 \<Longrightarrow> unat (of_nat n :: size_t) = n"
  by (simp add: unat_of_nat)

lemmas spec_defs = spec_codec_def spec_get_class_def spec_get_method_def spec_has_cookie_def
  spec_init_response_def spec_init_error_def spec_build_unknown_attributes_error_def
  spec_append_addr_def spec_append_xor_addr_def

lemmas eval_defs = dgram_process_def dgram_prepare_def recv_safe_def
  sys_recvmsg_def log_event_def dgram_msghdr_def dgram_respond_def Let_def send_safe.simps
  sys_sendmsg_def sys_recv_errqueue_def recv_err_def spec_defs

lemmas listen_defs = listen_socket_def sys_socket_def sys_setsockopt_def sys_bind_def
  sys_listen_def sys_close_def perror_def listen_socket_error_def

lemmas obs_defs = returned_def sent_lengths_def sent_to_def calls_def errq_left_def
  reported_def loop_sent_def

lemmas demo_defs = demo_os_def demo_socket_def demo_codec_def demo_validate_def demo_finish_def
  demo_request_def demo_dgram_def net_ok_def net_down_def demo_peer_def demo_agent_def

lemma demo_os_fd: "fdtab (demo_os rxq errq net) 3 = Some (demo_socket rxq errq)"
  by (simp add: demo_os_def)

lemma demo_os_obs:
  "trace (demo_os rxq errq net) = []"
  "wire (demo_os rxq errq net) = []"
  "stderr (demo_os rxq errq net) = []"
  by (simp_all add: demo_os_def)

lemma demo_socket_queues:
  "so_rxq (demo_socket rxq errq) = rxq"
  "so_errq (demo_socket rxq errq) = errq"
  by (simp_all add: demo_socket_def)

lemma demo_dgram_rxq:
  "so_rxq (demo_socket (demo_dgram b # q) errq) = Rx_dgram demo_peer None [b, 1, 0, 0] # q"
  by (simp add: demo_socket_def demo_dgram_def)

lemma demo_rcv:
  "length [b, 1, 0, 0 :: uint8_t] \<le> STUN_MAX_MESSAGE_SIZE demo_codec"
  "STUN_MAX_MESSAGE_SIZE demo_codec < 2 ^ 63"
  by (simp_all add: demo_codec_def spec_codec_def)

lemma demo_validate_eval:
  "stun_agent_validate demo_codec agent (Raw [0, 1, 0, 0]) len
     = (STUN_VALIDATION_SUCCESS, demo_request STUN_REQUEST STUN_BINDING True)"
  "stun_agent_validate demo_codec agent (Raw [1, 1, 0, 0]) len
     = (STUN_VALIDATION_SUCCESS, demo_request STUN_REQUEST STUN_BINDING False)"
  "stun_agent_validate demo_codec agent (Raw [2, 1, 0, 0]) len
     = (STUN_VALIDATION_SUCCESS, demo_request STUN_REQUEST (STUN_METHOD_OTHER 3) True)"
  "stun_agent_validate demo_codec agent (Raw [3, 1, 0, 0]) len
     = (STUN_VALIDATION_UNKNOWN_REQUEST_ATTRIBUTE, demo_request STUN_REQUEST STUN_BINDING True)"
  "stun_agent_validate demo_codec agent (Raw [4, 1, 0, 0]) len
     = (STUN_VALIDATION_SUCCESS, demo_request STUN_INDICATION STUN_BINDING True)"
  "stun_agent_validate demo_codec agent (Raw [9, 1, 0, 0]) len
     = (STUN_VALIDATION_OTHER 1, demo_request STUN_REQUEST STUN_BINDING True)"
  by (simp_all add: demo_codec_def spec_codec_def demo_validate_def)

lemma demo_request_sel:
  "stun_message_get_class demo_codec (demo_request c m k) = c"
  "stun_message_get_method demo_codec (demo_request c m k) = m"
  "stun_has_cookie demo_codec (demo_request c m k) = k"
  "msg_unknown (demo_request c m k) = [0x7F]"
  by (simp_all add: demo_request_def demo_codec_def spec_defs)

lemma demo_codec_spec: "demo_codec = spec_codec 1280 demo_validate demo_finish"
  by (rule demo_codec_def)

section \<open>Receiving\<close>

text \<open>
  A datagram that fits the buffer comes back from \<open>recv_safe\<close> with its length, and
  \<open>dgram_process\<close> goes on to lines 216-250 with it. The buffer size has to fit
  \<open>ssize_t\<close>, or a length could read as \<open>-1\<close>.
\<close>

lemma recv_safe_dgram:
  assumes sk: "fdtab s sock = Some sk"
    and rx: "so_rxq sk = Rx_dgram peer local data # q"
    and fits: "length data \<le> STUN_MAX_MESSAGE_SIZE cdc"
    and max: "STUN_MAX_MESSAGE_SIZE cdc < 2 ^ 63"
  shows "recv_safe sock (dgram_msghdr cdc) s =
           Some (of_nat (length data), received_msghdr cdc peer local data, received_os sock sk q s)"
proof -
  have u: "unat (iov_len (dgram_msghdr cdc)) = STUN_MAX_MESSAGE_SIZE cdc"
    using max by (simp add: dgram_msghdr_def unat_of_nat_size_t)
  have n: "(of_nat (length data) :: size_t) \<noteq> - 1"
    using fits max by (intro of_nat_neq_minus_1) simp
  have "sys_recvmsg sock (dgram_msghdr cdc) s =
          Some (of_nat (length data), received_msghdr cdc peer local data, received_os sock sk q s)"
    using sk rx fits u
    by (simp add: sys_recvmsg_def log_event_def received_msghdr_def received_os_def min_def)
  then show ?thesis
    using n by (simp add: recv_safe_def received_msghdr_def)
qed

lemma dgram_prepare_dgram:
  assumes "fdtab s sock = Some sk"
    and "so_rxq sk = Rx_dgram peer local data # q"
    and "length data \<le> STUN_MAX_MESSAGE_SIZE cdc"
    and "STUN_MAX_MESSAGE_SIZE cdc < 2 ^ 63"
  shows "dgram_prepare cdc sock agent s =
           Some (dgram_respond cdc agent (of_nat (length data))
                   (received_msghdr cdc peer local data) (received_os sock sk q s))"
proof -
  have "(of_nat (length data) :: size_t) \<noteq> - 1"
    using assms(3,4) by (intro of_nat_neq_minus_1) simp
  then show ?thesis
    by (simp add: dgram_prepare_def recv_safe_dgram [OF assms])
qed

lemma recv_safe_fail:
  assumes sk: "fdtab s sock = Some sk" and rx: "so_rxq sk = Rx_fail e # q"
  shows "\<exists>s'. recv_safe sock msg s = Some (- 1, msg, s')
         \<and> errno s' = (if so_errq sk = [] then EAGAIN else e)
         \<and> trace s' = trace s @ [Sys_recvmsg sock, Sys_recv_errqueue sock]
         \<and> map_option so_rxq (fdtab s' sock) = Some q
         \<and> map_option so_errq (fdtab s' sock) = Some (tl (so_errq sk))
         \<and> wire s' = wire s \<and> stderr s' = stderr s"
  using sk rx
  by (cases "so_errq sk")
     (simp_all add: recv_safe_def sys_recvmsg_def log_event_def recv_err_def sys_recv_errqueue_def)

lemma recv_safe_trunc:
  assumes sk: "fdtab s sock = Some sk" and rx: "so_rxq sk = Rx_dgram peer local data # q"
    and big: "STUN_MAX_MESSAGE_SIZE cdc < length data"
    and max: "STUN_MAX_MESSAGE_SIZE cdc < 2 ^ 63"
  shows "\<exists>mh s'. recv_safe sock (dgram_msghdr cdc) s = Some (- 1, mh, s')
         \<and> errno s' = EMSGSIZE
         \<and> trace s' = trace s @ [Sys_recvmsg sock]
         \<and> map_option so_rxq (fdtab s' sock) = Some q
         \<and> map_option so_errq (fdtab s' sock) = Some (so_errq sk)
         \<and> wire s' = wire s \<and> stderr s' = stderr s"
proof -
  have u: "unat (iov_len (dgram_msghdr cdc)) = STUN_MAX_MESSAGE_SIZE cdc"
    using max by (simp add: dgram_msghdr_def unat_of_nat_size_t)
  have n: "(of_nat (STUN_MAX_MESSAGE_SIZE cdc) :: size_t) \<noteq> - 1"
    using max by (rule of_nat_neq_minus_1)
  show ?thesis
    using sk rx big u n
    by (simp add: recv_safe_def sys_recvmsg_def log_event_def min_def Let_def)
qed

section \<open>Sending\<close>

text \<open>
  With an empty error queue and a network that refuses every transmission, each round of
  the loop of \<open>send_safe\<close> ends where it began: \<open>sendmsg\<close> fails, \<open>recv_err\<close> finds
  nothing and returns 0, and the loop goes round again. The function never returns.
\<close>

lemma spins_step:
  assumes "spins fd s"
  shows "\<exists>s1 s2. sys_sendmsg fd msg s = (- 1, s1) \<and> recv_err fd s1 = (0, s2) \<and> spins fd s2"
proof -
  from assms obtain sk where sk: "fdtab s fd = Some sk" "so_errq sk = []"
    and net: "\<forall>n. \<exists>e. tx_net s n = Tx_fail e"
    by (auto simp: spins_def)
  from net obtain e where e: "tx_net s (tx_count s) = Tx_fail e" by blast
  show ?thesis
    using sk e net
    by (simp add: sys_sendmsg_def log_event_def recv_err_def sys_recv_errqueue_def spins_def)
qed

lemma send_safe_returns_not_spins:
  assumes ret: "send_safe fd msg s = Some y"
  shows "\<not> spins fd s"
  apply (rule send_safe.raw_induct [where P = "\<lambda>fd msg s y. \<not> spins fd s", OF _ ret])
  subgoal premises prems for f fd' msg' s' y'
  proof
    assume sp: "spins fd' s'"
    from spins_step [OF sp, of msg'] obtain s1 s2
      where a: "sys_sendmsg fd' msg' s' = (- 1, s1)" and b: "recv_err fd' s1 = (0, s2)"
        and c: "spins fd' s2"
      by blast
    from prems(2) a b have ss: "f fd' msg' s2 = Some y'" by simp
    have "\<not> spins fd' s2" by (rule prems(1) [OF ss])
    with c show False by simp
  qed
  done

lemma send_safe_never_returns: "spins fd s \<Longrightarrow> send_safe fd msg s = None"
  using send_safe_returns_not_spins [of fd msg s] by (cases "send_safe fd msg s") auto

text \<open>
  With a stale error at the head of the queue \<open>send_safe\<close> ends after one round, whatever
  the network would do: \<open>sendmsg\<close> fails on the stale error, \<open>recv_err\<close> takes it off the
  queue and returns 1, and the loop condition is false.
\<close>

lemma send_safe_stale:
  assumes sk: "fdtab s fd = Some sk" and q: "so_errq sk = e # q"
  shows "\<exists>s'. send_safe fd msg s = Some (- 1, s')
         \<and> wire s' = wire s
         \<and> trace s' = trace s @ [Sys_sendmsg fd msg, Sys_recv_errqueue fd]
         \<and> map_option so_errq (fdtab s' fd) = Some q"
  using sk q
  by (subst send_safe.simps)
     (simp add: sys_sendmsg_def sys_recv_errqueue_def recv_err_def log_event_def)

text \<open>
  With an empty error queue and a network that takes the datagram whole, \<open>send_safe\<close>
  ends after one \<open>sendmsg\<close> with the length asked for, and the datagram is on the wire.
\<close>

lemma send_safe_sent:
  assumes sk: "fdtab s fd = Some sk" and q: "so_errq sk = []"
    and net: "tx_net s (tx_count s) = Tx_all" and len: "iov_len msg \<noteq> - 1"
  shows "\<exists>s'. send_safe fd msg s = Some (iov_len msg, s')
         \<and> wire s' = wire s @ [(msg, unat (iov_len msg))]
         \<and> trace s' = trace s @ [Sys_sendmsg fd msg]"
  using sk q net len
  by (subst send_safe.simps) (simp add: sys_sendmsg_def log_event_def)

text \<open>Exclusive-or with the same bytes twice gives the address back.\<close>

lemma stun_xor_address_involution: "stun_xor_address k (stun_xor_address k a) = a"
  by (simp add: stun_xor_address_def xor.assoc)

section \<open>The dispatcher on a received datagram\<close>

text \<open>
  In the theorems of this section a datagram \<open>data\<close> from \<open>peer\<close> is the next one on the
  socket and fits the buffer, and \<open>request\<close> is what the codec's validation parsed from it.
  \<open>dgram_prepare\<close> is \<open>dgram_process\<close> up to the label \<open>send_buf\<close>; the header it arrives
  there with is the one that \<open>dgram_process\<close> hands to \<open>send_safe\<close>.
\<close>

text \<open>
  Claim C1. With the codec as the spec describes it: a datagram that validates as
  \<open>SUCCESS\<close>, of class request and method Binding, gets a success response whose only
  attribute carries the peer address that \<open>recvmsg\<close> reported for this datagram, whatever
  its payload says: with the magic cookie an XOR-MAPPED-ADDRESS whose value, exclusive-or'ed
  again with the bytes of the response's cookie and transaction id, is the peer address;
  without it a MAPPED-ADDRESS that is the peer address itself. The response goes to that
  peer.
\<close>

theorem binding_response_carries_peer:
  assumes cdc: "cdc = spec_codec size_buf validate finish"
    and rcv: "fdtab s sock = Some sk" "so_rxq sk = Rx_dgram peer local data # q"
             "length data \<le> STUN_MAX_MESSAGE_SIZE cdc" "STUN_MAX_MESSAGE_SIZE cdc < 2 ^ 63"
    and val: "stun_agent_validate cdc agent (Raw data) (of_nat (length data))
                = (STUN_VALIDATION_SUCCESS, request)"
    and cls: "stun_message_get_class cdc request = STUN_REQUEST"
    and mth: "stun_message_get_method cdc request = STUN_BINDING"
  shows "\<exists>response mh s'.
           dgram_prepare cdc sock agent s = Some (Send_buf, mh, s')
         \<and> iov_base mh = Built response
         \<and> msg_name mh = Some peer
         \<and> msg_class response = STUN_RESPONSE
         \<and> (if stun_has_cookie cdc request
            then (\<exists>x. msg_attrs response = [(STUN_ATTRIBUTE_XOR_MAPPED_ADDRESS, Addr_value (Some x))]
                     \<and> stun_xor_address (msg_id response) x = peer)
            else msg_attrs response = [(STUN_ATTRIBUTE_MAPPED_ADDRESS, Addr_value (Some peer))])"
proof -
  have p: "dgram_prepare cdc sock agent s =
             Some (dgram_respond cdc agent (of_nat (length data))
                     (received_msghdr cdc peer local data) (received_os sock sk q s))"
    by (rule dgram_prepare_dgram [OF rcv])
  show ?thesis
    using val cls mth unfolding p
    by (cases "stun_has_cookie cdc request")
       (simp_all add: dgram_respond_def Let_def received_msghdr_def cdc spec_defs
        stun_xor_address_involution)
qed

text \<open>
  Witness for C1: a Binding request with the cookie (first byte 0) and one without (first
  byte 1), both from \<open>demo_peer\<close>.
\<close>

theorem binding_response_carries_peer_witness:
  "(\<exists>response mh s'.
      dgram_prepare demo_codec 3 demo_agent (demo_os [demo_dgram 0] [] net_ok) = Some (Send_buf, mh, s')
      \<and> iov_base mh = Built response \<and> msg_name mh = Some demo_peer
      \<and> msg_class response = STUN_RESPONSE
      \<and> (\<exists>x. msg_attrs response = [(STUN_ATTRIBUTE_XOR_MAPPED_ADDRESS, Addr_value (Some x))]
             \<and> stun_xor_address (msg_id response) x = demo_peer))
   \<and> (\<exists>response mh s'.
      dgram_prepare demo_codec 3 demo_agent (demo_os [demo_dgram 1] [] net_ok) = Some (Send_buf, mh, s')
      \<and> iov_base mh = Built response \<and> msg_name mh = Some demo_peer
      \<and> msg_class response = STUN_RESPONSE
      \<and> msg_attrs response = [(STUN_ATTRIBUTE_MAPPED_ADDRESS, Addr_value (Some demo_peer))])"
  using binding_response_carries_peer [where s = "demo_os [demo_dgram 0] [] net_ok"
          and agent = demo_agent,
          OF demo_codec_spec demo_os_fd demo_dgram_rxq demo_rcv demo_validate_eval(1)
             demo_request_sel(1,2)]
        binding_response_carries_peer [where s = "demo_os [demo_dgram 1] [] net_ok"
          and agent = demo_agent,
          OF demo_codec_spec demo_os_fd demo_dgram_rxq demo_rcv demo_validate_eval(2)
             demo_request_sel(1,2)]
  by (simp add: demo_request_sel)

text \<open>
  Claim C5. With the codec as the spec describes it: a datagram whose validation status
  is \<open>UNKNOWN_REQUEST_ATTRIBUTE\<close> gets the "unknown attributes" error response, which names
  the attributes that the validation of the request found unknown. Control goes straight
  to \<open>send_buf\<close>: after the validation the only call of the codec is the one that builds
  this error, whatever the method of the request is, and the response is an error, not a
  Binding success. \<open>dgram_process\<close> hands the header to \<open>send_safe\<close>.
\<close>

theorem unknown_attributes_error_response:
  assumes cdc: "cdc = spec_codec size_buf validate finish"
    and rcv: "fdtab s sock = Some sk" "so_rxq sk = Rx_dgram peer local data # q"
             "length data \<le> STUN_MAX_MESSAGE_SIZE cdc" "STUN_MAX_MESSAGE_SIZE cdc < 2 ^ 63"
    and val: "stun_agent_validate cdc agent (Raw data) (of_nat (length data))
                = (STUN_VALIDATION_UNKNOWN_REQUEST_ATTRIBUTE, request)"
  shows "\<exists>response mh s'.
           dgram_prepare cdc sock agent s = Some (Send_buf, mh, s')
         \<and> iov_base mh = Built response
         \<and> msg_name mh = Some peer
         \<and> msg_class response = STUN_ERROR
         \<and> msg_attrs response =
             [(STUN_ATTRIBUTE_ERROR_CODE, Error_value STUN_ERROR_UNKNOWN_ATTRIBUTE),
              (STUN_ATTRIBUTE_UNKNOWN_ATTRIBUTES, Unknown_value (msg_unknown request))]
         \<and> trace s' = trace s @ [Sys_recvmsg sock, Codec_validate (Raw data) (of_nat (length data)),
                                  Codec_build_unknown_attributes_error]
         \<and> dgram_process cdc sock agent s =
             (case send_safe sock mh s' of
                None \<Rightarrow> None
              | Some (len, s'') \<Rightarrow> Some ((if len < iov_len mh then - 1 else 0), s''))"
proof -
  have p: "dgram_prepare cdc sock agent s =
             Some (dgram_respond cdc agent (of_nat (length data))
                     (received_msghdr cdc peer local data) (received_os sock sk q s))"
    by (rule dgram_prepare_dgram [OF rcv])
  show ?thesis
    using val unfolding dgram_process_def p
    by (simp add: dgram_respond_def Let_def received_msghdr_def received_os_def log_event_def
        cdc spec_defs)
qed

text \<open>
  Witness for C5: a Binding request that the codec reports with an unknown attribute
  (first byte 3).
\<close>

theorem unknown_attributes_error_response_witness:
  "\<exists>response mh s'.
     dgram_prepare demo_codec 3 demo_agent (demo_os [demo_dgram 3] [] net_ok) = Some (Send_buf, mh, s')
     \<and> iov_base mh = Built response
     \<and> msg_name mh = Some demo_peer
     \<and> msg_class response = STUN_ERROR
     \<and> msg_attrs response =
             [(STUN_ATTRIBUTE_ERROR_CODE, Error_value STUN_ERROR_UNKNOWN_ATTRIBUTE),
              (STUN_ATTRIBUTE_UNKNOWN_ATTRIBUTES, Unknown_value [0x7F])]
     \<and> trace s' = [Sys_recvmsg 3, Codec_validate (Raw [3, 1, 0, 0]) 4,
                   Codec_build_unknown_attributes_error]
     \<and> dgram_process demo_codec 3 demo_agent (demo_os [demo_dgram 3] [] net_ok) =
             (case send_safe 3 mh s' of
                None \<Rightarrow> None
              | Some (len, s'') \<Rightarrow> Some ((if len < iov_len mh then - 1 else 0), s''))"
  using unknown_attributes_error_response [where s = "demo_os [demo_dgram 3] [] net_ok"
          and agent = demo_agent,
          OF demo_codec_spec demo_os_fd demo_dgram_rxq demo_rcv demo_validate_eval(4)]
  by (simp add: demo_os_obs demo_request_sel)

text \<open>
  Claim C6. For every codec: a datagram that validates as \<open>SUCCESS\<close>, of class request and
  of a method other than Binding, gets the error response that the codec makes for the
  code "bad request", finished, and addressed to the peer. Control reaches \<open>send_buf\<close>, not
  a \<open>return\<close>: \<open>dgram_process\<close> hands the header to \<open>send_safe\<close>, the datagram is not
  dropped. And the response is sent: when no stale error is queued on the socket and the
  network takes the datagram, \<open>dgram_process\<close> returns 0 and exactly this header, with the
  finished length, has been added to the wire.
\<close>

theorem other_method_bad_request:
  assumes rcv: "fdtab s sock = Some sk" "so_rxq sk = Rx_dgram peer local data # q"
               "length data \<le> STUN_MAX_MESSAGE_SIZE cdc" "STUN_MAX_MESSAGE_SIZE cdc < 2 ^ 63"
    and val: "stun_agent_validate cdc agent (Raw data) (of_nat (length data))
                = (STUN_VALIDATION_SUCCESS, request)"
    and cls: "stun_message_get_class cdc request = STUN_REQUEST"
    and mth: "stun_message_get_method cdc request \<noteq> STUN_BINDING"
  shows "\<exists>response mh s'.
           dgram_prepare cdc sock agent s = Some (Send_buf, mh, s')
         \<and> response = stun_agent_init_error cdc agent (STUN_MAX_MESSAGE_SIZE cdc) request
                         STUN_ERROR_BAD_REQUEST
         \<and> iov_base mh = Built response
         \<and> iov_len mh = stun_agent_finish_message cdc agent response
         \<and> msg_name mh = Some peer
         \<and> trace s' = trace s @ [Sys_recvmsg sock, Codec_validate (Raw data) (of_nat (length data)),
                                  Codec_init_error STUN_ERROR_BAD_REQUEST, Codec_finish_message]
         \<and> dgram_process cdc sock agent s =
             (case send_safe sock mh s' of
                None \<Rightarrow> None
              | Some (len, s'') \<Rightarrow> Some ((if len < iov_len mh then - 1 else 0), s''))
         \<and> (so_errq sk = [] \<and> tx_net s (tx_count s) = Tx_all
              \<and> stun_agent_finish_message cdc agent response \<noteq> - 1 \<longrightarrow>
              (\<exists>s''. dgram_process cdc sock agent s = Some (0, s'')
                 \<and> wire s'' = wire s @ [(mh, unat (iov_len mh))]
                 \<and> trace s'' = trace s' @ [Sys_sendmsg sock mh]))"
proof -
  define response where
    "response = stun_agent_init_error cdc agent (STUN_MAX_MESSAGE_SIZE cdc) request
                  STUN_ERROR_BAD_REQUEST"
  define mh where
    "mh = (received_msghdr cdc peer local data)
            \<lparr>iov_base := Built response,
             iov_len := stun_agent_finish_message cdc agent response\<rparr>"
  define s' where
    "s' = log_event Codec_finish_message
            (log_event (Codec_init_error STUN_ERROR_BAD_REQUEST)
               (log_event (Codec_validate (Raw data) (of_nat (length data)))
                  (received_os sock sk q s)))"
  have p: "dgram_prepare cdc sock agent s = Some (Send_buf, mh, s')"
    using val cls mth
    by (cases "stun_message_get_method cdc request")
       (simp_all add: dgram_prepare_dgram [OF rcv] dgram_respond_def Let_def received_msghdr_def
        mh_def s'_def response_def)
  have h: "iov_base mh = Built response"
          "iov_len mh = stun_agent_finish_message cdc agent response"
          "msg_name mh = Some peer"
    by (simp_all add: mh_def received_msghdr_def)
  have t: "trace s' = trace s @ [Sys_recvmsg sock, Codec_validate (Raw data) (of_nat (length data)),
                                Codec_init_error STUN_ERROR_BAD_REQUEST, Codec_finish_message]"
    by (simp add: s'_def received_os_def log_event_def)
  have st: "fdtab s' sock = Some (sk\<lparr>so_rxq := q\<rparr>)" "tx_net s' = tx_net s"
           "tx_count s' = tx_count s" "wire s' = wire s"
    by (simp_all add: s'_def received_os_def log_event_def)
  have d: "dgram_process cdc sock agent s =
             (case send_safe sock mh s' of
                None \<Rightarrow> None
              | Some (len, s'') \<Rightarrow> Some ((if len < iov_len mh then - 1 else 0), s''))"
    by (simp add: dgram_process_def p)
  have sent: "\<exists>s''. dgram_process cdc sock agent s = Some (0, s'')
                 \<and> wire s'' = wire s @ [(mh, unat (iov_len mh))]
                 \<and> trace s'' = trace s' @ [Sys_sendmsg sock mh]"
    if a: "so_errq sk = []" "tx_net s (tx_count s) = Tx_all"
          "stun_agent_finish_message cdc agent response \<noteq> - 1"
  proof -
    have "so_errq (sk\<lparr>so_rxq := q\<rparr>) = []" using a(1) by simp
    moreover have "tx_net s' (tx_count s') = Tx_all" using a(2) st by simp
    moreover have "iov_len mh \<noteq> - 1" using a(3) h by simp
    ultimately obtain s'' where
      "send_safe sock mh s' = Some (iov_len mh, s'')"
      "wire s'' = wire s' @ [(mh, unat (iov_len mh))]"
      "trace s'' = trace s' @ [Sys_sendmsg sock mh]"
      using send_safe_sent [OF st(1), of mh] by blast
    then show ?thesis using d st by simp
  qed
  from p h t d sent show ?thesis
    unfolding response_def [symmetric] by blast
qed

text \<open>
  Witness for C6: a request of another method (first byte 2) on a socket without stale
  errors and a network that takes the datagram; the concrete codec finishes the error
  response to 32 bytes, and these 32 bytes go to the peer.
\<close>

theorem other_method_bad_request_witness:
  "\<exists>response mh s'.
     dgram_prepare demo_codec 3 demo_agent (demo_os [demo_dgram 2] [] net_ok) = Some (Send_buf, mh, s')
     \<and> response = stun_agent_init_error demo_codec demo_agent 1280
                     (demo_request STUN_REQUEST (STUN_METHOD_OTHER 3) True) STUN_ERROR_BAD_REQUEST
     \<and> iov_base mh = Built response
     \<and> iov_len mh = 32
     \<and> msg_name mh = Some demo_peer
     \<and> trace s' = [Sys_recvmsg 3, Codec_validate (Raw [2, 1, 0, 0]) 4,
                   Codec_init_error STUN_ERROR_BAD_REQUEST, Codec_finish_message]
     \<and> dgram_process demo_codec 3 demo_agent (demo_os [demo_dgram 2] [] net_ok) =
             (case send_safe 3 mh s' of
                None \<Rightarrow> None
              | Some (len, s'') \<Rightarrow> Some ((if len < iov_len mh then - 1 else 0), s''))
     \<and> (\<exists>s''. dgram_process demo_codec 3 demo_agent (demo_os [demo_dgram 2] [] net_ok)
                  = Some (0, s'')
            \<and> wire s'' = [(mh, unat (iov_len mh))]
            \<and> trace s'' = trace s' @ [Sys_sendmsg 3 mh])
     \<and> sent_lengths (dgram_process demo_codec 3 demo_agent (demo_os [demo_dgram 2] [] net_ok))
         = [32]
     \<and> sent_to (dgram_process demo_codec 3 demo_agent (demo_os [demo_dgram 2] [] net_ok))
         = [Some demo_peer]"
proof -
  have w: "sent_lengths (dgram_process demo_codec 3 demo_agent (demo_os [demo_dgram 2] [] net_ok))
             = [32]
           \<and> sent_to (dgram_process demo_codec 3 demo_agent (demo_os [demo_dgram 2] [] net_ok))
             = [Some demo_peer]"
    by (simp add: obs_defs eval_defs demo_defs)
  have m: "stun_message_get_method demo_codec (demo_request STUN_REQUEST (STUN_METHOD_OTHER 3) True)
             \<noteq> STUN_BINDING"
    by (simp add: demo_request_sel)
  have f: "stun_agent_finish_message demo_codec demo_agent
             (stun_agent_init_error demo_codec demo_agent 1280
                (demo_request STUN_REQUEST (STUN_METHOD_OTHER 3) True) STUN_ERROR_BAD_REQUEST) = 32"
    by (simp add: demo_codec_def spec_defs demo_finish_def)
  have n: "STUN_MAX_MESSAGE_SIZE demo_codec = 1280"
    by (simp add: demo_codec_def spec_codec_def)
  have net: "tx_net (demo_os rxq errq net_ok) (tx_count (demo_os rxq errq net_ok)) = Tx_all"
    for rxq errq
    by (simp add: demo_os_def net_ok_def)
  show ?thesis
    using other_method_bad_request [where s = "demo_os [demo_dgram 2] [] net_ok"
            and agent = demo_agent,
            OF demo_os_fd demo_dgram_rxq demo_rcv demo_validate_eval(3) demo_request_sel(1) m]
    by (simp add: demo_os_obs demo_socket_queues f n net w)
qed

text \<open>
  Claim C4. For every codec that gives the status \<open>UNKNOWN_REQUEST_ATTRIBUTE\<close> to requests
  only (the status is that of a request with an unknown attribute): every datagram whose
  validation status is neither \<open>SUCCESS\<close> nor \<open>UNKNOWN_REQUEST_ATTRIBUTE\<close>, or whose class
  is not request, is dropped: \<open>dgram_process\<close> returns \<open>-1\<close>, after \<open>recvmsg\<close> and the
  validation it makes no call (no response is built, nothing is sent), nothing leaves on
  the wire and nothing is written by \<open>perror\<close>.
\<close>

theorem dgram_process_drop:
  assumes rcv: "fdtab s sock = Some sk" "so_rxq sk = Rx_dgram peer local data # q"
               "length data \<le> STUN_MAX_MESSAGE_SIZE cdc" "STUN_MAX_MESSAGE_SIZE cdc < 2 ^ 63"
    and val: "stun_agent_validate cdc agent (Raw data) (of_nat (length data)) = (validation, request)"
    and req: "validation = STUN_VALIDATION_UNKNOWN_REQUEST_ATTRIBUTE
              \<Longrightarrow> stun_message_get_class cdc request = STUN_REQUEST"
    and bad: "(validation \<noteq> STUN_VALIDATION_SUCCESS
                 \<and> validation \<noteq> STUN_VALIDATION_UNKNOWN_REQUEST_ATTRIBUTE)
              \<or> stun_message_get_class cdc request \<noteq> STUN_REQUEST"
  shows "\<exists>s'. dgram_process cdc sock agent s = Some (- 1, s')
         \<and> wire s' = wire s \<and> stderr s' = stderr s
         \<and> trace s' = trace s @ [Sys_recvmsg sock, Codec_validate (Raw data) (of_nat (length data))]"
proof -
  from req bad have nu: "validation \<noteq> STUN_VALIDATION_UNKNOWN_REQUEST_ATTRIBUTE"
    by blast
  show ?thesis
    using val nu bad
    by (auto simp add: dgram_process_def dgram_prepare_dgram [OF rcv] dgram_respond_def Let_def
        received_msghdr_def received_os_def log_event_def)
qed

text \<open>
  Witness for C4: a datagram that fails validation (first byte 9) and a valid indication
  (first byte 4).
\<close>

theorem dgram_process_drop_witness:
  "(\<exists>s'. dgram_process demo_codec 3 demo_agent (demo_os [demo_dgram 9] [] net_ok) = Some (- 1, s')
      \<and> wire s' = [] \<and> stderr s' = []
      \<and> trace s' = [Sys_recvmsg 3, Codec_validate (Raw [9, 1, 0, 0]) 4])
   \<and> (\<exists>s'. dgram_process demo_codec 3 demo_agent (demo_os [demo_dgram 4] [] net_ok) = Some (- 1, s')
      \<and> wire s' = [] \<and> stderr s' = []
      \<and> trace s' = [Sys_recvmsg 3, Codec_validate (Raw [4, 1, 0, 0]) 4])"
proof -
  have a: "(STUN_VALIDATION_OTHER 1 \<noteq> STUN_VALIDATION_SUCCESS
             \<and> STUN_VALIDATION_OTHER 1 \<noteq> STUN_VALIDATION_UNKNOWN_REQUEST_ATTRIBUTE)
           \<or> stun_message_get_class demo_codec (demo_request STUN_REQUEST STUN_BINDING True)
               \<noteq> STUN_REQUEST"
    by simp
  have b: "(STUN_VALIDATION_SUCCESS \<noteq> STUN_VALIDATION_SUCCESS
             \<and> STUN_VALIDATION_SUCCESS \<noteq> STUN_VALIDATION_UNKNOWN_REQUEST_ATTRIBUTE)
           \<or> stun_message_get_class demo_codec (demo_request STUN_INDICATION STUN_BINDING True)
               \<noteq> STUN_REQUEST"
    by (simp add: demo_request_sel)
  show ?thesis
    using dgram_process_drop [where s = "demo_os [demo_dgram 9] [] net_ok" and agent = demo_agent,
            OF demo_os_fd demo_dgram_rxq demo_rcv demo_validate_eval(6) _ a]
          dgram_process_drop [where s = "demo_os [demo_dgram 4] [] net_ok" and agent = demo_agent,
            OF demo_os_fd demo_dgram_rxq demo_rcv demo_validate_eval(5) _ b]
    by (simp add: demo_os_obs)
qed

text \<open>
  For every codec, the unknown-attributes path reaches \<open>send_buf\<close> with \<open>iov.iov_len\<close>
  still at the size of the buffer and without a call of the finishing operation.
\<close>

lemma unknown_attributes_iov_len:
  assumes rcv: "fdtab s sock = Some sk" "so_rxq sk = Rx_dgram peer local data # q"
               "length data \<le> STUN_MAX_MESSAGE_SIZE cdc" "STUN_MAX_MESSAGE_SIZE cdc < 2 ^ 63"
    and val: "stun_agent_validate cdc agent (Raw data) (of_nat (length data))
                = (STUN_VALIDATION_UNKNOWN_REQUEST_ATTRIBUTE, request)"
  shows "\<exists>mh s'.
           dgram_prepare cdc sock agent s = Some (Send_buf, mh, s')
         \<and> iov_len mh = of_nat (STUN_MAX_MESSAGE_SIZE cdc)
         \<and> msg_name mh = Some peer
         \<and> Codec_finish_message \<notin> set (trace s') - set (trace s)"
  using val
  by (simp add: dgram_prepare_dgram [OF rcv] dgram_respond_def Let_def received_msghdr_def
      received_os_def log_event_def dgram_msghdr_def)

text \<open>
  Claim C3, at the input where the code departs from it. The datagram (first byte 3)
  validates as \<open>UNKNOWN_REQUEST_ATTRIBUTE\<close>. The branch at lines 219-224 builds the error
  response and jumps to \<open>send_buf\<close>, past the assignment of line 250, so \<open>iov.iov_len\<close> is
  still \<open>sizeof (buf)\<close>: \<open>sendmsg\<close> is given the whole buffer, 1280 bytes here, for a
  response that the codec finishes to 44 bytes, and the finishing operation is never
  called. The datagram does go to the peer. On the path of another method (first byte 2)
  the 32 bytes of the finished response are sent.
\<close>

theorem unknown_attributes_sends_whole_buffer:
  "stun_agent_validate demo_codec demo_agent (Raw [3, 1, 0, 0]) 4
     = (STUN_VALIDATION_UNKNOWN_REQUEST_ATTRIBUTE, demo_request STUN_REQUEST STUN_BINDING True)
   \<and> STUN_MAX_MESSAGE_SIZE demo_codec = 1280
   \<and> stun_agent_finish_message demo_codec demo_agent
        (stun_agent_build_unknown_attributes_error demo_codec demo_agent 1280
           (demo_request STUN_REQUEST STUN_BINDING True)) = 44
   \<and> returned (dgram_process demo_codec 3 demo_agent (demo_os [demo_dgram 3] [] net_ok)) = Some 0
   \<and> sent_to (dgram_process demo_codec 3 demo_agent (demo_os [demo_dgram 3] [] net_ok))
       = [Some demo_peer]
   \<and> sent_lengths (dgram_process demo_codec 3 demo_agent (demo_os [demo_dgram 3] [] net_ok))
       = [1280]
   \<and> Codec_finish_message
       \<notin> set (calls (dgram_process demo_codec 3 demo_agent (demo_os [demo_dgram 3] [] net_ok)))
   \<and> sent_lengths (dgram_process demo_codec 3 demo_agent (demo_os [demo_dgram 2] [] net_ok))
       = [32]"
  by (simp add: obs_defs eval_defs demo_defs)

section \<open>The transport\<close>

text \<open>
  Claim C2, at the inputs where the code departs from it. The loop of \<open>send_safe\<close> goes on
  while \<open>recv_err\<close> returned 0, that is while nothing could be taken off the error queue;
  \<open>recv_err\<close> returns 1 when it took an entry. So with one stale error queued and a
  network that would take the datagram, \<open>send_safe\<close> makes one \<open>sendmsg\<close>, which fails on
  the stale error, takes that error off the queue, and returns \<open>-1\<close> without a second
  \<open>sendmsg\<close>: the queue is empty, nothing was sent, and the stale error is what the caller
  gets. And with an empty queue and a network that refuses, where the loop should stop
  with the failure, it never stops.
\<close>

theorem send_safe_reports_stale_error:
  "returned (send_safe 3 demo_msg (demo_os [] [ECONNREFUSED] net_ok)) = Some (- 1)
   \<and> sent_lengths (send_safe 3 demo_msg (demo_os [] [ECONNREFUSED] net_ok)) = []
   \<and> errq_left 3 (send_safe 3 demo_msg (demo_os [] [ECONNREFUSED] net_ok)) = []
   \<and> calls (send_safe 3 demo_msg (demo_os [] [ECONNREFUSED] net_ok))
       = [Sys_sendmsg 3 demo_msg, Sys_recv_errqueue 3]
   \<and> send_safe 3 demo_msg (demo_os [] [] net_down) = None"
proof -
  have "spins 3 (demo_os [] [] net_down)"
    by (simp add: spins_def demo_os_def demo_socket_def net_down_def)
  then have "send_safe 3 demo_msg (demo_os [] [] net_down) = None"
    by (rule send_safe_never_returns)
  then show ?thesis
    by (simp add: obs_defs send_safe.simps sys_sendmsg_def sys_recv_errqueue_def recv_err_def
        log_event_def demo_os_def demo_socket_def net_ok_def)
qed

text \<open>
  Claim C7, as stated: after a failed receive and one attempt to dequeue, \<open>recv_safe\<close>
  reports the original failure. It returns the \<open>-1\<close> of \<open>recvmsg\<close>, but \<open>errno\<close>, which
  says what the failure was, is not saved around \<open>recv_err\<close>: when the error queue is
  empty, the attempt to dequeue fails itself and leaves its own \<open>EAGAIN\<close>. Here \<open>recvmsg\<close>
  fails with \<open>ENOMEM\<close> on a socket with an empty error queue, and \<open>recv_safe\<close> reports
  \<open>EAGAIN\<close>.
\<close>

theorem recv_failure_errno_counterexample:
  "reported (sys_recvmsg 3 (dgram_msghdr demo_codec) (demo_os [Rx_fail ENOMEM] [] net_ok))
     = Some (- 1, ENOMEM)
   \<and> reported (recv_safe 3 (dgram_msghdr demo_codec) (demo_os [Rx_fail ENOMEM] [] net_ok))
     = Some (- 1, EAGAIN)"
  by (simp add: reported_def recv_safe_def sys_recvmsg_def recv_err_def sys_recv_errqueue_def
      log_event_def demo_os_def demo_socket_def)

text \<open>
  Claim C7, amended. When \<open>recvmsg\<close> fails, \<open>recv_safe\<close> calls \<open>recv_err\<close> once (at most one
  entry leaves the error queue, and it need not find one) and returns the \<open>-1\<close> of
  \<open>recvmsg\<close>; there is no second \<open>recvmsg\<close>, the rest of the receive queue stays. \<open>errno\<close> is
  still the error of \<open>recvmsg\<close> when an entry was dequeued, and the \<open>EAGAIN\<close> of the failed
  dequeue when the error queue was empty. When the datagram is longer than the buffer,
  \<open>recv_safe\<close> sets \<open>errno\<close> to \<open>EMSGSIZE\<close> and returns \<open>-1\<close>. In both cases
  \<open>dgram_process\<close> returns \<open>-1\<close> at once: for the truncated datagram the only call made is
  \<open>recvmsg\<close>, so the bytes reach neither the validation nor the wire. The round of the
  loop of \<open>run\<close> ends, and the next round works on the datagrams that are left.
\<close>

theorem recv_failure_and_truncation:
  assumes sk: "fdtab s sock = Some sk"
  shows "(so_rxq sk = Rx_fail e # q \<longrightarrow>
            (\<exists>mh s'. recv_safe sock (dgram_msghdr cdc) s = Some (- 1, mh, s')
               \<and> errno s' = (if so_errq sk = [] then EAGAIN else e)
               \<and> trace s' = trace s @ [Sys_recvmsg sock, Sys_recv_errqueue sock]
               \<and> map_option so_rxq (fdtab s' sock) = Some q
               \<and> map_option so_errq (fdtab s' sock) = Some (tl (so_errq sk))
               \<and> dgram_process cdc sock agent s = Some (- 1, s')
               \<and> dgram_loop (Suc 0) cdc sock agent s = Some s'
               \<and> (\<forall>n. dgram_loop (Suc n) cdc sock agent s = dgram_loop n cdc sock agent s')))
       \<and> (so_rxq sk = Rx_dgram peer local data # q
            \<and> STUN_MAX_MESSAGE_SIZE cdc < length data \<and> STUN_MAX_MESSAGE_SIZE cdc < 2 ^ 63 \<longrightarrow>
            (\<exists>mh s'. recv_safe sock (dgram_msghdr cdc) s = Some (- 1, mh, s')
               \<and> errno s' = EMSGSIZE
               \<and> trace s' = trace s @ [Sys_recvmsg sock]
               \<and> wire s' = wire s
               \<and> map_option so_rxq (fdtab s' sock) = Some q
               \<and> dgram_process cdc sock agent s = Some (- 1, s')
               \<and> dgram_loop (Suc 0) cdc sock agent s = Some s'
               \<and> (\<forall>n. dgram_loop (Suc n) cdc sock agent s = dgram_loop n cdc sock agent s')))"
proof (intro conjI impI)
  assume rx: "so_rxq sk = Rx_fail e # q"
  from recv_safe_fail [OF sk rx, of "dgram_msghdr cdc"] obtain s'
    where r: "recv_safe sock (dgram_msghdr cdc) s = Some (- 1, dgram_msghdr cdc, s')"
      and t: "errno s' = (if so_errq sk = [] then EAGAIN else e)"
             "trace s' = trace s @ [Sys_recvmsg sock, Sys_recv_errqueue sock]"
             "map_option so_rxq (fdtab s' sock) = Some q"
             "map_option so_errq (fdtab s' sock) = Some (tl (so_errq sk))"
    by blast
  have p: "dgram_process cdc sock agent s = Some (- 1, s')"
    using r by (simp add: dgram_process_def dgram_prepare_def)
  then have l: "dgram_loop (Suc 0) cdc sock agent s = Some s'"
    "\<forall>n. dgram_loop (Suc n) cdc sock agent s = dgram_loop n cdc sock agent s'"
    by simp_all
  from r t p l show "\<exists>mh s'. recv_safe sock (dgram_msghdr cdc) s = Some (- 1, mh, s')
               \<and> errno s' = (if so_errq sk = [] then EAGAIN else e)
               \<and> trace s' = trace s @ [Sys_recvmsg sock, Sys_recv_errqueue sock]
               \<and> map_option so_rxq (fdtab s' sock) = Some q
               \<and> map_option so_errq (fdtab s' sock) = Some (tl (so_errq sk))
               \<and> dgram_process cdc sock agent s = Some (- 1, s')
               \<and> dgram_loop (Suc 0) cdc sock agent s = Some s'
               \<and> (\<forall>n. dgram_loop (Suc n) cdc sock agent s = dgram_loop n cdc sock agent s')"
    by blast
next
  assume a: "so_rxq sk = Rx_dgram peer local data # q
            \<and> STUN_MAX_MESSAGE_SIZE cdc < length data \<and> STUN_MAX_MESSAGE_SIZE cdc < 2 ^ 63"
  from a recv_safe_trunc [OF sk, of peer local data q cdc] obtain mh s'
    where r: "recv_safe sock (dgram_msghdr cdc) s = Some (- 1, mh, s')"
      and t: "errno s' = EMSGSIZE" "trace s' = trace s @ [Sys_recvmsg sock]" "wire s' = wire s"
             "map_option so_rxq (fdtab s' sock) = Some q"
    by blast
  have p: "dgram_process cdc sock agent s = Some (- 1, s')"
    using r by (simp add: dgram_process_def dgram_prepare_def)
  then have l: "dgram_loop (Suc 0) cdc sock agent s = Some s'"
    "\<forall>n. dgram_loop (Suc n) cdc sock agent s = dgram_loop n cdc sock agent s'"
    by simp_all
  from r t p l show "\<exists>mh s'. recv_safe sock (dgram_msghdr cdc) s = Some (- 1, mh, s')
               \<and> errno s' = EMSGSIZE
               \<and> trace s' = trace s @ [Sys_recvmsg sock]
               \<and> wire s' = wire s
               \<and> map_option so_rxq (fdtab s' sock) = Some q
               \<and> dgram_process cdc sock agent s = Some (- 1, s')
               \<and> dgram_loop (Suc 0) cdc sock agent s = Some s'
               \<and> (\<forall>n. dgram_loop (Suc n) cdc sock agent s = dgram_loop n cdc sock agent s')"
    by blast
qed

text \<open>
  Witness for the amended C7: a failed receive with two entries on the error queue, and a
  datagram of 1281 bytes for the buffer of 1280; a Binding request waits behind each. In
  two rounds of the loop the truncated datagram is passed over and the Binding request
  behind it is answered: 32 bytes go to its peer.
\<close>

theorem recv_failure_and_truncation_witness:
  "(\<exists>mh s'. recv_safe 3 (dgram_msghdr demo_codec)
               (demo_os [Rx_fail ECONNREFUSED, demo_dgram 0] [ECONNREFUSED, EMSGSIZE] net_ok)
                = Some (- 1, mh, s')
      \<and> errno s' = ECONNREFUSED
      \<and> trace s' = [Sys_recvmsg 3, Sys_recv_errqueue 3]
      \<and> map_option so_rxq (fdtab s' 3) = Some [demo_dgram 0]
      \<and> map_option so_errq (fdtab s' 3) = Some [EMSGSIZE]
      \<and> dgram_process demo_codec 3 demo_agent
           (demo_os [Rx_fail ECONNREFUSED, demo_dgram 0] [ECONNREFUSED, EMSGSIZE] net_ok)
          = Some (- 1, s')
      \<and> dgram_loop (Suc 0) demo_codec 3 demo_agent
           (demo_os [Rx_fail ECONNREFUSED, demo_dgram 0] [ECONNREFUSED, EMSGSIZE] net_ok)
          = Some s'
      \<and> (\<forall>n. dgram_loop (Suc n) demo_codec 3 demo_agent
                (demo_os [Rx_fail ECONNREFUSED, demo_dgram 0] [ECONNREFUSED, EMSGSIZE] net_ok)
             = dgram_loop n demo_codec 3 demo_agent s'))
   \<and> (\<exists>mh s'. recv_safe 3 (dgram_msghdr demo_codec)
               (demo_os [Rx_dgram demo_peer None (replicate 1281 0), demo_dgram 0] [] net_ok)
                = Some (- 1, mh, s')
      \<and> errno s' = EMSGSIZE
      \<and> trace s' = [Sys_recvmsg 3]
      \<and> wire s' = []
      \<and> map_option so_rxq (fdtab s' 3) = Some [demo_dgram 0]
      \<and> dgram_process demo_codec 3 demo_agent
           (demo_os [Rx_dgram demo_peer None (replicate 1281 0), demo_dgram 0] [] net_ok)
          = Some (- 1, s')
      \<and> dgram_loop (Suc 0) demo_codec 3 demo_agent
           (demo_os [Rx_dgram demo_peer None (replicate 1281 0), demo_dgram 0] [] net_ok)
          = Some s'
      \<and> (\<forall>n. dgram_loop (Suc n) demo_codec 3 demo_agent
                (demo_os [Rx_dgram demo_peer None (replicate 1281 0), demo_dgram 0] [] net_ok)
             = dgram_loop n demo_codec 3 demo_agent s'))
   \<and> loop_sent (dgram_loop (Suc (Suc 0)) demo_codec 3 demo_agent
        (demo_os [Rx_dgram demo_peer None (replicate 1281 0), demo_dgram 0] [] net_ok))
       = [(Some demo_peer, 32)]"
proof -
  have m: "STUN_MAX_MESSAGE_SIZE demo_codec = 1280"
    by (simp add: demo_codec_def spec_codec_def)
  have w: "loop_sent (dgram_loop (Suc (Suc 0)) demo_codec 3 demo_agent
             (demo_os [Rx_dgram demo_peer None (replicate 1281 0), demo_dgram 0] [] net_ok))
           = [(Some demo_peer, 32)]"
    by (simp add: obs_defs eval_defs demo_defs)
  show ?thesis
    using recv_failure_and_truncation
            [where s = "demo_os [Rx_fail ECONNREFUSED, demo_dgram 0] [ECONNREFUSED, EMSGSIZE] net_ok"
               and sock = 3 and e = ECONNREFUSED
               and q = "[demo_dgram 0]" and cdc = demo_codec and agent = demo_agent, OF demo_os_fd]
          recv_failure_and_truncation
            [where s = "demo_os [Rx_dgram demo_peer None (replicate 1281 0), demo_dgram 0] [] net_ok"
               and sock = 3 and peer = demo_peer and local = None
               and data = "replicate 1281 0" and q = "[demo_dgram 0]" and cdc = demo_codec
               and agent = demo_agent, OF demo_os_fd]
    by (simp add: demo_socket_queues demo_os_obs m w del: dgram_loop.simps)
qed

text \<open>
  Claim C10. When \<open>send_safe\<close> returns \<open>-1\<close>, \<open>dgram_process\<close> returns 0: the \<open>-1\<close> goes
  into the \<open>size_t\<close> variable \<open>len\<close>, where it is the largest value, and is not below
  \<open>iov.iov_len\<close>. After the label \<open>send_buf\<close> \<open>dgram_process\<close> returns \<open>-1\<close> only for a
  result of \<open>send_safe\<close> that is a count of bytes (not \<open>-1\<close>) below the length asked for;
  in every other case it returns 0.
\<close>

theorem send_failure_returns_success:
  assumes "dgram_prepare cdc sock agent s = Some (Send_buf, mh, s1)"
    and "send_safe sock mh s1 = Some (len, s2)"
  shows "\<exists>r. dgram_process cdc sock agent s = Some (r, s2)
         \<and> (len = - 1 \<longrightarrow> r = 0)
         \<and> (r = - 1 \<longleftrightarrow> len \<noteq> - 1 \<and> unat len < unat (iov_len mh))
         \<and> (r \<noteq> - 1 \<longrightarrow> r = 0)"
  using assms by (auto simp add: dgram_process_def simp flip: word_less_nat_alt)

text \<open>
  Witness for C10: a Binding request on a socket with a stale error queued, where
  \<open>send_safe\<close> returns \<open>-1\<close>, nothing is sent and \<open>dgram_process\<close> returns 0; and the same
  request with a network that takes 10 of the 32 bytes, where \<open>dgram_process\<close> returns
  \<open>-1\<close>.
\<close>

theorem send_failure_returns_success_witness:
  "returned (dgram_process demo_codec 3 demo_agent (demo_os [demo_dgram 0] [ECONNREFUSED] net_ok))
     = Some 0
   \<and> sent_lengths (dgram_process demo_codec 3 demo_agent (demo_os [demo_dgram 0] [ECONNREFUSED] net_ok))
     = []
   \<and> returned (dgram_process demo_codec 3 demo_agent (demo_os [demo_dgram 0] [] net_short))
     = Some (- 1)
   \<and> sent_lengths (dgram_process demo_codec 3 demo_agent (demo_os [demo_dgram 0] [] net_short))
     = [10]"
proof -
  define p where
    "p = the (dgram_prepare demo_codec 3 demo_agent (demo_os [demo_dgram 0] [ECONNREFUSED] net_ok))"
  define t where "t = the (send_safe 3 (fst (snd p)) (snd (snd p)))"
  define p' where
    "p' = the (dgram_prepare demo_codec 3 demo_agent (demo_os [demo_dgram 0] [] net_short))"
  define t' where "t' = the (send_safe 3 (fst (snd p')) (snd (snd p')))"
  have 1: "dgram_prepare demo_codec 3 demo_agent (demo_os [demo_dgram 0] [ECONNREFUSED] net_ok)
             = Some (Send_buf, fst (snd p), snd (snd p))"
    unfolding p_def by (simp add: eval_defs demo_defs)
  have 2: "send_safe 3 (fst (snd p)) (snd (snd p)) = Some (- 1, snd t)"
    unfolding t_def p_def by (simp add: eval_defs demo_defs)
  have w: "wire (snd t) = []"
    unfolding t_def p_def by (simp add: eval_defs demo_defs)
  have 3: "dgram_prepare demo_codec 3 demo_agent (demo_os [demo_dgram 0] [] net_short)
             = Some (Send_buf, fst (snd p'), snd (snd p'))"
    unfolding p'_def by (simp add: eval_defs demo_defs)
  have 4: "send_safe 3 (fst (snd p')) (snd (snd p')) = Some (10, snd t')"
    unfolding t'_def p'_def by (simp add: eval_defs demo_defs net_short_def)
  have l: "iov_len (fst (snd p')) = 32"
    unfolding p'_def by (simp add: eval_defs demo_defs)
  have w': "map snd (wire (snd t')) = [10]"
    unfolding t'_def p'_def by (simp add: eval_defs demo_defs net_short_def)
  show ?thesis
    using send_failure_returns_success [OF 1 2] send_failure_returns_success [OF 3 4] w w' l
    by (auto simp add: returned_def sent_lengths_def)
qed

section \<open>The listening socket\<close>

text \<open>
  Claim C8. When \<open>socket\<close> returns a descriptor below 3, \<open>listen_socket\<close> closes it and
  returns \<open>-1\<close>; whenever \<open>listen_socket\<close> returns something other than \<open>-1\<close>, that is an
  open descriptor and it is at least 3.
\<close>

theorem listen_socket_rejects_standard_streams:
  "(socket_ret s = Inr n \<and> n < 3 \<longrightarrow>
      fst (listen_socket fam type proto port s) = - 1
      \<and> fdtab (snd (listen_socket fam type proto port s)) (int n) = None)
   \<and> (fst (listen_socket fam type proto port s) \<noteq> - 1 \<longrightarrow>
      3 \<le> fst (listen_socket fam type proto port s)
      \<and> fdtab (snd (listen_socket fam type proto port s))
           (fst (listen_socket fam type proto port s)) \<noteq> None)"
  by (cases "socket_ret s"; cases fam; cases "bind_ret s"; cases "listen_ret s")
     (auto simp add: listen_defs Let_def split: prod.splits)

text \<open>Witness for C8: \<open>socket\<close> answers descriptor 2, and descriptor 3.\<close>

theorem listen_socket_rejects_standard_streams_witness:
  "fst (listen_socket AF_INET SOCK_DGRAM 17 0x960D (boot_os (Inr 2))) = - 1
   \<and> fdtab (snd (listen_socket AF_INET SOCK_DGRAM 17 0x960D (boot_os (Inr 2)))) 2 = None
   \<and> fst (listen_socket AF_INET SOCK_DGRAM 17 0x960D (boot_os (Inr 3))) = 3
   \<and> fdtab (snd (listen_socket AF_INET SOCK_DGRAM 17 0x960D (boot_os (Inr 3)))) 3 \<noteq> None"
  using listen_socket_rejects_standard_streams [of "boot_os (Inr 2)" 2 AF_INET SOCK_DGRAM 17 "0x960D"]
        listen_socket_rejects_standard_streams [of "boot_os (Inr 3)" 3 AF_INET SOCK_DGRAM 17 "0x960D"]
  by (simp add: listen_defs boot_os_def)

text \<open>
  Claim C9. A socket that \<open>listen_socket\<close> returns for \<open>AF_INET\<close> and \<open>SOCK_DGRAM\<close> has
  \<open>IP_PKTINFO\<close> and \<open>IP_RECVERR\<close> set and does not listen. A socket that it returns for
  \<open>SOCK_STREAM\<close> listens with the backlog \<open>INT_MAX\<close> and has none of the packet-information
  and error-queue options set. (The results of \<open>setsockopt\<close> are not checked by the code;
  in the model the call succeeds on every open descriptor.)
\<close>

theorem listen_socket_configures:
  assumes "listen_socket fam type proto port s = (fd, s')" and "fd \<noteq> - 1"
  shows "\<exists>sk. fdtab s' fd = Some sk
         \<and> (fam = AF_INET \<and> type = SOCK_DGRAM \<longrightarrow>
              so_opts sk = [IP_PKTINFO, IP_RECVERR] \<and> so_backlog sk = None)
         \<and> (type = SOCK_STREAM \<longrightarrow>
              so_backlog sk = Some INT_MAX
              \<and> set (so_opts sk) \<inter> {IP_PKTINFO, IP_RECVERR, IPV6_RECVPKTINFO, IPV6_RECVERR} = {})"
  using assms
  by (cases "socket_ret s"; cases fam; cases "bind_ret s"; cases "listen_ret s")
     (auto simp add: listen_defs Let_def split: prod.splits if_splits)

text \<open>Witness for C9: a UDP socket over IPv4 and a TCP socket over IPv6, at descriptor 3.\<close>

theorem listen_socket_configures_witness:
  "(\<exists>sk. fdtab (snd (listen_socket AF_INET SOCK_DGRAM 17 0x960D (boot_os (Inr 3)))) 3 = Some sk
       \<and> so_opts sk = [IP_PKTINFO, IP_RECVERR] \<and> so_backlog sk = None)
   \<and> (\<exists>sk. fdtab (snd (listen_socket AF_INET6 SOCK_STREAM 6 0x960D (boot_os (Inr 3)))) 3 = Some sk
       \<and> so_backlog sk = Some INT_MAX
       \<and> set (so_opts sk) \<inter> {IP_PKTINFO, IP_RECVERR, IPV6_RECVPKTINFO, IPV6_RECVERR} = {})"
proof -
  have a: "listen_socket AF_INET SOCK_DGRAM 17 0x960D (boot_os (Inr 3))
             = (3, snd (listen_socket AF_INET SOCK_DGRAM 17 0x960D (boot_os (Inr 3))))"
    by (simp add: listen_defs boot_os_def)
  have b: "listen_socket AF_INET6 SOCK_STREAM 6 0x960D (boot_os (Inr 3))
             = (3, snd (listen_socket AF_INET6 SOCK_STREAM 6 0x960D (boot_os (Inr 3))))"
    by (simp add: listen_defs boot_os_def)
  show ?thesis
    using listen_socket_configures [OF a] listen_socket_configures [OF b] by simp
qed

end
